theory Spec2Isabelle
  imports Main
begin

section \<open>The syntax tree the analysis reads\<close>

text \<open>
  The analysis reads TypeScript syntax trees. Every node has a kind (a member of the
  compiler's \<open>SyntaxKind\<close> enumeration) and a source text (\<open>getText()\<close>). The kinds
  listed by name are those the two dispatch tables of the source mention, and a few more
  that occur in the examples; \<open>OtherKind n\<close> stands for any other member.
\<close>

datatype SyntaxKind =
    ArrowFunction | BinaryExpression | Block | ClassDeclaration | ConditionalExpression
  | EqualsToken | ExpressionStatement | FirstStatement | FunctionDeclaration
  | GreaterThanToken | GreaterThanEqualsToken | Identifier | IfStatement
  | LessThanToken | LessThanEqualsToken | NumericLiteral | Parameter
  | PropertyAccessExpression | PropertyDeclaration | StringLiteral | SourceFile
  | SyntaxList | ThisKeyword | VariableDeclaration | VariableDeclarationList
  | ReturnStatement
  | NonNullExpression | BarBarToken | AmpersandAmpersandToken | EqualsGreaterThanToken
  | EqualsEqualsToken
  | ExclamationEqualsToken | AmpersandToken | PlusToken | OpenBraceToken | CloseBraceToken
  | SemicolonToken | PrefixUnaryExpression | ParenthesizedExpression | WhileStatement
  | BooleanKeyword | NumberKeyword
  | OtherKind nat

text \<open>
  A node carries the properties the source reads from a node of its kind; an optional
  property of the compiler's declaration is an \<open>option\<close>. \<open>Node k t\<close> is a node of which
  only the kind and the text are read: a token, a keyword, an identifier, a literal, or a
  node of a kind that has no handler. The first argument of every other constructor is the
  node's text. \<open>Block\<close>, \<open>SyntaxList\<close> and \<open>FirstStatement\<close> carry the list that
  \<open>getChildren()\<close> returns, which for a block includes its brace tokens.
\<close>

datatype node =
    Node SyntaxKind string
  | SourceFile string "node list"
  | Block string "node list"
  | SyntaxList string "node list"
  | FirstStatement string "node list"
  | FunctionDeclaration string "node list" "node option"
  | ArrowFunction string "node list" node
  | ClassDeclaration string "node list"
  | PropertyDeclaration string "node option"
  | Parameter string node "node option"
  | ExpressionStatement string node
  | VariableDeclarationList string "node list"
  | VariableDeclaration string node "node option" "node option"
  | IfStatement string node node "node option"
  | BinaryExpression string node node node
  | PropertyAccessExpression string node node
  | NonNullExpression string node

fun kind :: "node \<Rightarrow> SyntaxKind" where
  "kind (Node k t) = k"
| "kind (SourceFile t statements) = SyntaxKind.SourceFile"
| "kind (Block t children) = SyntaxKind.Block"
| "kind (SyntaxList t children) = SyntaxKind.SyntaxList"
| "kind (FirstStatement t children) = SyntaxKind.FirstStatement"
| "kind (FunctionDeclaration t parameters body) = SyntaxKind.FunctionDeclaration"
| "kind (ArrowFunction t parameters body) = SyntaxKind.ArrowFunction"
| "kind (ClassDeclaration t members) = SyntaxKind.ClassDeclaration"
| "kind (PropertyDeclaration t initializer) = SyntaxKind.PropertyDeclaration"
| "kind (Parameter t name type) = SyntaxKind.Parameter"
| "kind (ExpressionStatement t expression) = SyntaxKind.ExpressionStatement"
| "kind (VariableDeclarationList t declarations) = SyntaxKind.VariableDeclarationList"
| "kind (VariableDeclaration t name type initializer) = SyntaxKind.VariableDeclaration"
| "kind (IfStatement t expression thenStatement elseStatement) = SyntaxKind.IfStatement"
| "kind (BinaryExpression t left operatorToken right) = SyntaxKind.BinaryExpression"
| "kind (PropertyAccessExpression t expression name) = SyntaxKind.PropertyAccessExpression"
| "kind (NonNullExpression t expression) = SyntaxKind.NonNullExpression"

fun getText :: "node \<Rightarrow> string" where
  "getText (Node k t) = t"
| "getText (SourceFile t statements) = t"
| "getText (Block t children) = t"
| "getText (SyntaxList t children) = t"
| "getText (FirstStatement t children) = t"
| "getText (FunctionDeclaration t parameters body) = t"
| "getText (ArrowFunction t parameters body) = t"
| "getText (ClassDeclaration t members) = t"
| "getText (PropertyDeclaration t initializer) = t"
| "getText (Parameter t name type) = t"
| "getText (ExpressionStatement t expression) = t"
| "getText (VariableDeclarationList t declarations) = t"
| "getText (VariableDeclaration t name type initializer) = t"
| "getText (IfStatement t expression thenStatement elseStatement) = t"
| "getText (BinaryExpression t left operatorToken right) = t"
| "getText (PropertyAccessExpression t expression name) = t"
| "getText (NonNullExpression t expression) = t"

text \<open>The property \<open>expression\<close> of a node, for the kinds that have one.\<close>

fun expressionOf :: "node \<Rightarrow> node option" where
  "expressionOf (ExpressionStatement t expression) = Some expression"
| "expressionOf (IfStatement t expression thenStatement elseStatement) = Some expression"
| "expressionOf (PropertyAccessExpression t expression name) = Some expression"
| "expressionOf (NonNullExpression t expression) = Some expression"
| "expressionOf _ = None"

section \<open>Console output and exceptions\<close>

text \<open>
  \<open>console.log\<close> and \<open>console.warn\<close> are recorded as events holding the arguments of
  the call. \<open>KindName k\<close> is the argument \<open>ts.SyntaxKind[k]\<close>, the enumeration's name
  of a kind. The only exception the modelled code raises itself is the \<open>TypeError\<close> of
  reading a property of \<open>undefined\<close>; \<open>Z3AssertionError\<close> is the exception with which
  the solver library rejects an argument.
\<close>

datatype arg = Str string | KindName SyntaxKind

datatype event = Log "arg list" | Warn "arg list"

datatype error = TypeError | Z3AssertionError

text \<open>
  A call yields the events it emitted, in order, and either the exception it threw or the
  value it returned.
\<close>

type_synonym 'a outcome = "event list \<times> (error + 'a)"

definition andThen :: "'a outcome \<Rightarrow> ('a \<Rightarrow> 'b outcome) \<Rightarrow> 'b outcome" where
  "andThen m f =
     (case m of
        (es, Inl e) \<Rightarrow> (es, Inl e)
      | (es, Inr v) \<Rightarrow> (case f v of (es', r) \<Rightarrow> (es @ es', r)))"

section \<open>The condition evaluator\<close>

text \<open>
  The values the evaluator handles have the source's type \<open>any\<close>: \<open>undefined\<close>, or a
  solver expression, whether supplied by the environment or returned by a solver call.
\<close>

datatype jsval =
    Undefined
  | Const string
  | IntVal int
  | BoolVal bool
  | TermGT jsval jsval
  | TermGE jsval jsval
  | TermLT jsval jsval
  | TermLE jsval jsval
  | TermEq jsval jsval
  | And jsval jsval
  | Or jsval jsval
  | Not jsval

text \<open>
  The solver is an external library. What \<open>Context("main")\<close> returns is a parameter of
  the model: the five calls the evaluator makes on it, each of which returns an
  expression or throws.
\<close>

record solver =
  GT :: "jsval \<Rightarrow> jsval \<Rightarrow> error + jsval"
  GE :: "jsval \<Rightarrow> jsval \<Rightarrow> error + jsval"
  LT :: "jsval \<Rightarrow> jsval \<Rightarrow> error + jsval"
  LE :: "jsval \<Rightarrow> jsval \<Rightarrow> error + jsval"
  Eq :: "jsval \<Rightarrow> jsval \<Rightarrow> error + jsval"

text \<open>
  The fields of a \<open>ConditionEvaluator\<close>. \<open>pathParams k\<close> is what the property read
  \<open>pathParams[k]\<close> finds, \<open>None\<close> when it finds nothing (the read then yields
  \<open>undefined\<close>). \<open>z3Context\<close> is unset until \<open>init\<close> has run; \<open>init z3\<close> is the run of
  \<open>init\<close> in which \<open>Context("main")\<close> returns \<open>z3\<close>. The jump table is the same for every
  instance and is the constant \<open>jumpTable_CE\<close> below.
\<close>

record ConditionEvaluator =
  pathParams :: "string \<Rightarrow> jsval option"
  z3Context :: "solver option"

definition new_ConditionEvaluator :: "(string \<Rightarrow> jsval option) \<Rightarrow> ConditionEvaluator" where
  "new_ConditionEvaluator params = \<lparr>pathParams = params, z3Context = None\<rparr>"

definition init :: "solver \<Rightarrow> ConditionEvaluator \<Rightarrow> ConditionEvaluator" where
  "init z3 this = this\<lparr>z3Context := Some z3\<rparr>"

datatype handler =
    VisitIdentifier_CE | VisitBinaryExpression_CE | VisitNonNullExpression_CE | VisitBarBarToken_CE
  | VisitAmpersandAmpersandToken_CE | VisitLessThanToken_CE | VisitLessThanEqualsToken_CE
  | VisitGreaterThanToken_CE | VisitEqualsGreaterThanToken_CE | VisitEqualsEqualsToken_CE

text \<open>The table the constructor builds, by the kinds it names.\<close>

fun jumpTable_CE :: "SyntaxKind \<Rightarrow> handler option" where
  "jumpTable_CE SyntaxKind.Identifier = Some VisitIdentifier_CE"
| "jumpTable_CE SyntaxKind.BinaryExpression = Some VisitBinaryExpression_CE"
| "jumpTable_CE SyntaxKind.NonNullExpression = Some VisitNonNullExpression_CE"
| "jumpTable_CE SyntaxKind.BarBarToken = Some VisitBarBarToken_CE"
| "jumpTable_CE SyntaxKind.AmpersandAmpersandToken = Some VisitAmpersandAmpersandToken_CE"
| "jumpTable_CE SyntaxKind.LessThanToken = Some VisitLessThanToken_CE"
| "jumpTable_CE SyntaxKind.LessThanEqualsToken = Some VisitLessThanEqualsToken_CE"
| "jumpTable_CE SyntaxKind.GreaterThanToken = Some VisitGreaterThanToken_CE"
| "jumpTable_CE SyntaxKind.EqualsGreaterThanToken = Some VisitEqualsGreaterThanToken_CE"
| "jumpTable_CE SyntaxKind.EqualsEqualsToken = Some VisitEqualsEqualsToken_CE"
| "jumpTable_CE _ = None"

text \<open>
  Every method takes the receiver \<open>this\<close> as its first argument: \<open>Some ev\<close> when it is
  called as a method of the evaluator \<open>ev\<close>, \<open>None\<close> when it is called as a plain
  function, as the two dispatching methods do (\<open>visitFn(context, node)\<close> on a function
  read out of the table; class bodies are strict code, so the callee's \<open>this\<close> is
  \<open>undefined\<close>). A positional parameter the caller did not pass is \<open>None\<close>. The
  \<open>context\<close> parameter is passed along and never read.
  A name that the analyzer's class uses as well carries the suffix \<open>_CE\<close> here and
  \<open>_PA\<close> there.
\<close>

definition propertyRead :: "(string \<Rightarrow> jsval option) \<Rightarrow> string \<Rightarrow> jsval" where
  "propertyRead object key = (case object key of None \<Rightarrow> Undefined | Some v \<Rightarrow> v)"

definition visitIdentifier_CE ::
  "ConditionEvaluator option \<Rightarrow> 'c \<Rightarrow> node option \<Rightarrow> jsval outcome" where
  "visitIdentifier_CE this context node =
     (case node of
        None \<Rightarrow> ([], Inl TypeError)
      | Some n \<Rightarrow>
          (case this of
             None \<Rightarrow> ([Log [Str ''Got identifier: '', Str (getText n)]], Inl TypeError)
           | Some ev \<Rightarrow>
               ([Log [Str ''Got identifier: '', Str (getText n)]],
                Inr (propertyRead (pathParams ev) (getText n)))))"

definition visitNonNullExpression ::
  "ConditionEvaluator option \<Rightarrow> 'c \<Rightarrow> node option \<Rightarrow> jsval outcome" where
  "visitNonNullExpression this context node =
     (case node of
        None \<Rightarrow> ([], Inl TypeError)
      | Some n \<Rightarrow>
          (case expressionOf n of
             None \<Rightarrow> ([], Inl TypeError)
           | Some expression \<Rightarrow>
               ([Log [Str ''Got non null expression '', Str (getText expression)]],
                Inr Undefined)))"

definition visitBarBarToken ::
  "ConditionEvaluator option \<Rightarrow> 'c \<Rightarrow> node option \<Rightarrow> jsval outcome" where
  "visitBarBarToken this context node =
     (case node of
        None \<Rightarrow> ([], Inl TypeError)
      | Some n \<Rightarrow> ([Log [Str ''Got bar bar token '', Str (getText n)]], Inr Undefined))"

definition visitAmpersandAmpersandToken ::
  "ConditionEvaluator option \<Rightarrow> 'c \<Rightarrow> node option \<Rightarrow> jsval outcome" where
  "visitAmpersandAmpersandToken this context node =
     (case node of
        None \<Rightarrow> ([], Inl TypeError)
      | Some n \<Rightarrow>
          ([Log [Str ''Got ampersand ampersand token '', Str (getText n)]], Inr Undefined))"

text \<open>
  The five comparison methods have one body up to the logged message and the solver call.
  The operator's text is read for the log first; then \<open>this.z3Context.GT\<close> is read,
  which throws when \<open>this\<close> or \<open>this.z3Context\<close> is \<open>undefined\<close>; then both operands
  are passed to \<open>this.visitIdentifier\<close>, left before right; then the solver is called
  with the two results, and what it returns or throws is the outcome.
\<close>

definition visitComparison ::
  "string \<Rightarrow> (solver \<Rightarrow> jsval \<Rightarrow> jsval \<Rightarrow> error + jsval) \<Rightarrow> ConditionEvaluator option \<Rightarrow> 'c \<Rightarrow>
     node option \<Rightarrow> node option \<Rightarrow> node option \<Rightarrow> jsval outcome" where
  "visitComparison message solverCall this context leftNode operatorNode rightNode =
     (case operatorNode of
        None \<Rightarrow> ([], Inl TypeError)
      | Some operator \<Rightarrow>
          andThen ([Log [Str message, Str (getText operator)]], Inr ())
            (\<lambda>_. case this of
                None \<Rightarrow> ([], Inl TypeError)
              | Some ev \<Rightarrow>
                  (case z3Context ev of
                     None \<Rightarrow> ([], Inl TypeError)
                   | Some z3 \<Rightarrow>
                       andThen (visitIdentifier_CE (Some ev) context leftNode)
                         (\<lambda>l. andThen (visitIdentifier_CE (Some ev) context rightNode)
                            (\<lambda>r. ([], solverCall z3 l r))))))"

definition visitGreaterThanToken_CE ::
  "ConditionEvaluator option \<Rightarrow> 'c \<Rightarrow> node option \<Rightarrow> node option \<Rightarrow> node option
     \<Rightarrow> jsval outcome" where
  "visitGreaterThanToken_CE = visitComparison ''Got greater than token '' GT"

definition visitEqualsGreaterThanToken_CE ::
  "ConditionEvaluator option \<Rightarrow> 'c \<Rightarrow> node option \<Rightarrow> node option \<Rightarrow> node option
     \<Rightarrow> jsval outcome" where
  "visitEqualsGreaterThanToken_CE = visitComparison ''Got greater than equals token '' GE"

definition visitLessThanToken_CE ::
  "ConditionEvaluator option \<Rightarrow> 'c \<Rightarrow> node option \<Rightarrow> node option \<Rightarrow> node option
     \<Rightarrow> jsval outcome" where
  "visitLessThanToken_CE = visitComparison ''Got less than token '' LT"

definition visitLessThanEqualsToken_CE ::
  "ConditionEvaluator option \<Rightarrow> 'c \<Rightarrow> node option \<Rightarrow> node option \<Rightarrow> node option
     \<Rightarrow> jsval outcome" where
  "visitLessThanEqualsToken_CE = visitComparison ''Got less than equals token '' LE"

definition visitEqualsEqualsToken ::
  "ConditionEvaluator option \<Rightarrow> 'c \<Rightarrow> node option \<Rightarrow> node option \<Rightarrow> node option
     \<Rightarrow> jsval outcome" where
  "visitEqualsEqualsToken = visitComparison ''Got equals equals token '' Eq"

text \<open>
  \<open>visitBinaryExpression_CE\<close> logs the node's text, then reads \<open>this.jumpTable\<close>. A
  function found under the operator's kind is called plainly with the left operand, the
  operator token and the right operand. Otherwise the method warns and returns nothing.
  \<open>call_CE\<close> is the plain call \<open>visitFn(context, a, b, c)\<close> of a table entry.
\<close>

fun visitBinaryExpression_CE ::
    "ConditionEvaluator option \<Rightarrow> 'c \<Rightarrow> node option \<Rightarrow> jsval outcome"
  and call_CE ::
    "handler \<Rightarrow> 'c \<Rightarrow> node option \<Rightarrow> node option \<Rightarrow> node option \<Rightarrow> jsval outcome"
where
  "visitBinaryExpression_CE this context None = ([], Inl TypeError)"
| "visitBinaryExpression_CE None context (Some n) =
     ([Log [Str ''Found a binary expression: '', Str (getText n)]], Inl TypeError)"
| "visitBinaryExpression_CE (Some ev) context (Some (BinaryExpression t left operatorToken right)) =
     andThen ([Log [Str ''Found a binary expression: '', Str t]], Inr ())
       (\<lambda>_. case jumpTable_CE (kind operatorToken) of
           Some visitFn \<Rightarrow> call_CE visitFn context (Some left) (Some operatorToken) (Some right)
         | None \<Rightarrow>
             ([Warn [Str ''found an unspecified operator: '', Str (getText operatorToken),
                     Str '', '', KindName SyntaxKind.BinaryExpression]],
              Inr Undefined))"
| "visitBinaryExpression_CE (Some ev) context (Some n) =
     ([Log [Str ''Found a binary expression: '', Str (getText n)]], Inl TypeError)"
| "call_CE VisitIdentifier_CE context a b c = visitIdentifier_CE None context a"
| "call_CE VisitBinaryExpression_CE context a b c = visitBinaryExpression_CE None context a"
| "call_CE VisitNonNullExpression_CE context a b c = visitNonNullExpression None context a"
| "call_CE VisitBarBarToken_CE context a b c = visitBarBarToken None context a"
| "call_CE VisitAmpersandAmpersandToken_CE context a b c = visitAmpersandAmpersandToken None context a"
| "call_CE VisitLessThanToken_CE context a b c = visitLessThanToken_CE None context a b c"
| "call_CE VisitLessThanEqualsToken_CE context a b c = visitLessThanEqualsToken_CE None context a b c"
| "call_CE VisitGreaterThanToken_CE context a b c = visitGreaterThanToken_CE None context a b c"
| "call_CE VisitEqualsGreaterThanToken_CE context a b c = visitEqualsGreaterThanToken_CE None context a b c"
| "call_CE VisitEqualsEqualsToken_CE context a b c = visitEqualsEqualsToken None context a b c"

text \<open>
  \<open>visitCondition\<close> dispatches on the node's kind and calls the function found with the
  node alone; for a kind that is not in the table it warns and returns nothing.
\<close>

definition visitCondition ::
  "ConditionEvaluator option \<Rightarrow> 'c \<Rightarrow> node option \<Rightarrow> jsval outcome" where
  "visitCondition this context node =
     (case this of
        None \<Rightarrow> ([], Inl TypeError)
      | Some ev \<Rightarrow>
          (case node of
             None \<Rightarrow> ([], Inl TypeError)
           | Some n \<Rightarrow>
               (case jumpTable_CE (kind n) of
                  Some visitFn \<Rightarrow> call_CE visitFn context (Some n) None None
                | None \<Rightarrow>
                    ([Warn [Str ''found an unspecified condition: '', Str (getText n),
                            Str '', '', KindName (kind n)]],
                     Inr Undefined))))"

section \<open>The context tree\<close>

text \<open>
  Modelled from the spec: the classes \<open>Context\<close>, \<open>ContextConditional\<close> and
  \<open>ContextAssignment\<close> are imported by the analyzer and are not among the source files.
  The spec's data model gives three variants: a root, which holds an ordered list of
  children; a conditional, which holds the branch predicate, the line range of its
  \<open>if\<close> statement and a transient polarity flag (visiting the true branch or the false
  branch); and an assignment, which holds a variable name and an expression. A child
  added to a conditional belongs to the branch the flag names when it is added. The
  parent link is omitted, as the spec allows. A field is \<open>None\<close> until its setter has
  run (and when the setter is given \<open>undefined\<close>).
\<close>

type_synonym LineNumbers = "nat \<times> nat"

datatype Context =
    Context (children: "Context list")
  | ContextConditional
      (condition: "node option") (lineNumbers: "LineNumbers option")
      (visiting: "bool option") (trueChildren: "Context list") (falseChildren: "Context list")
  | ContextAssignment (varName: "string option") (expression: "node option")

definition new_Context :: Context where
  "new_Context = Context []"

definition new_ContextConditional :: Context where
  "new_ContextConditional = ContextConditional None None None [] []"

definition new_ContextAssignment :: Context where
  "new_ContextAssignment = ContextAssignment None None"

fun addChild :: "Context \<Rightarrow> Context \<Rightarrow> Context" where
  "addChild (Context cs) child = Context (cs @ [child])"
| "addChild (ContextConditional c l v ts fs) child =
     (if v = Some False then ContextConditional c l v ts (fs @ [child])
      else ContextConditional c l v (ts @ [child]) fs)"
| "addChild (ContextAssignment n e) child = ContextAssignment n e"

fun setLineNumbers :: "LineNumbers \<Rightarrow> Context \<Rightarrow> Context" where
  "setLineNumbers ln (ContextConditional c l v ts fs) = ContextConditional c (Some ln) v ts fs"
| "setLineNumbers ln other = other"

fun setCondition :: "node option \<Rightarrow> Context \<Rightarrow> Context" where
  "setCondition e (ContextConditional c l v ts fs) = ContextConditional e l v ts fs"
| "setCondition e other = other"

fun setVisitingTrue :: "Context \<Rightarrow> Context" where
  "setVisitingTrue (ContextConditional c l v ts fs) = ContextConditional c l (Some True) ts fs"
| "setVisitingTrue other = other"

fun setVisitingFalse :: "Context \<Rightarrow> Context" where
  "setVisitingFalse (ContextConditional c l v ts fs) = ContextConditional c l (Some False) ts fs"
| "setVisitingFalse other = other"

fun setVarName :: "string \<Rightarrow> Context \<Rightarrow> Context" where
  "setVarName name (ContextAssignment n e) = ContextAssignment (Some name) e"
| "setVarName name other = other"

fun setExpression :: "node option \<Rightarrow> Context \<Rightarrow> Context" where
  "setExpression e (ContextAssignment n e') = ContextAssignment n e"
| "setExpression e other = other"

section \<open>The context tree builder\<close>

text \<open>
  The state the builder threads: the symbol table of the root context and the warnings
  printed so far. \<open>WARNING\<close> is the constant \<open>true\<close>, so \<open>warn\<close> always prints;
  \<open>LOGGING\<close> is the constant \<open>false\<close>, so \<open>log\<close> prints nothing, and its arguments are
  still evaluated.
\<close>

record analysis =
  vars :: "string \<Rightarrow> string option"
  warnings :: "event list"

text \<open>
  Modelled from the spec: \<open>addVar\<close> is a method of the missing class \<open>Context\<close>. The
  spec has it register the name with its declared type in the symbol table of the nearest
  root context, a mapping from identifier to type; an analysis has one root, whose table
  is the \<open>vars\<close> of the state.
\<close>

definition addVar :: "string \<Rightarrow> string \<Rightarrow> analysis \<Rightarrow> analysis" where
  "addVar name type s = s\<lparr>vars := (vars s)(name \<mapsto> type)\<rparr>"

definition warn :: "arg list \<Rightarrow> analysis \<Rightarrow> analysis" where
  "warn args s = s\<lparr>warnings := warnings s @ [Warn args]\<rparr>"

text \<open>
  A visit returns the state and the context it was given, both as updated, or the
  exception that ended it. The context a handler is given is an object it mutates; here
  the updated context is returned.
\<close>

type_synonym visit = "error + analysis \<times> Context"

datatype visitor =
    VisitArrowFunction_PA | VisitBinaryExpression_PA | VisitBlock_PA | VisitClassDeclaration_PA
  | VisitConditionalExpression_PA | VisitEqualsToken_PA | VisitExpressionStatement_PA
  | VisitFirstStatement_PA | VisitFunctionDeclaration_PA | VisitGreaterThanToken_PA
  | VisitEqualsGreaterThanToken_PA | VisitIdentifier_PA | VisitIfStatement_PA
  | VisitLessThanToken_PA | VisitLessThanEqualsToken_PA | VisitNumericLiteral_PA
  | VisitParameter_PA | VisitPropertyAccessExpression_PA | VisitPropertyDeclaration_PA
  | VisitStringLiteral_PA | VisitSourceFile_PA | VisitSyntaxList_PA | VisitThisKeyword_PA
  | VisitVariableDeclaration_PA | VisitVariableDeclarationList_PA | VisitReturnStatement_PA

text \<open>The table the analyzer's constructor builds.\<close>

fun jumpTable_PA :: "SyntaxKind \<Rightarrow> visitor option" where
  "jumpTable_PA SyntaxKind.ArrowFunction = Some VisitArrowFunction_PA"
| "jumpTable_PA SyntaxKind.BinaryExpression = Some VisitBinaryExpression_PA"
| "jumpTable_PA SyntaxKind.Block = Some VisitBlock_PA"
| "jumpTable_PA SyntaxKind.ClassDeclaration = Some VisitClassDeclaration_PA"
| "jumpTable_PA SyntaxKind.ConditionalExpression = Some VisitConditionalExpression_PA"
| "jumpTable_PA SyntaxKind.EqualsToken = Some VisitEqualsToken_PA"
| "jumpTable_PA SyntaxKind.ExpressionStatement = Some VisitExpressionStatement_PA"
| "jumpTable_PA SyntaxKind.FirstStatement = Some VisitFirstStatement_PA"
| "jumpTable_PA SyntaxKind.FunctionDeclaration = Some VisitFunctionDeclaration_PA"
| "jumpTable_PA SyntaxKind.GreaterThanToken = Some VisitGreaterThanToken_PA"
| "jumpTable_PA SyntaxKind.GreaterThanEqualsToken = Some VisitEqualsGreaterThanToken_PA"
| "jumpTable_PA SyntaxKind.Identifier = Some VisitIdentifier_PA"
| "jumpTable_PA SyntaxKind.IfStatement = Some VisitIfStatement_PA"
| "jumpTable_PA SyntaxKind.LessThanToken = Some VisitLessThanToken_PA"
| "jumpTable_PA SyntaxKind.LessThanEqualsToken = Some VisitLessThanEqualsToken_PA"
| "jumpTable_PA SyntaxKind.NumericLiteral = Some VisitNumericLiteral_PA"
| "jumpTable_PA SyntaxKind.Parameter = Some VisitParameter_PA"
| "jumpTable_PA SyntaxKind.PropertyAccessExpression = Some VisitPropertyAccessExpression_PA"
| "jumpTable_PA SyntaxKind.PropertyDeclaration = Some VisitPropertyDeclaration_PA"
| "jumpTable_PA SyntaxKind.StringLiteral = Some VisitStringLiteral_PA"
| "jumpTable_PA SyntaxKind.SourceFile = Some VisitSourceFile_PA"
| "jumpTable_PA SyntaxKind.SyntaxList = Some VisitSyntaxList_PA"
| "jumpTable_PA SyntaxKind.ThisKeyword = Some VisitThisKeyword_PA"
| "jumpTable_PA SyntaxKind.VariableDeclaration = Some VisitVariableDeclaration_PA"
| "jumpTable_PA SyntaxKind.VariableDeclarationList = Some VisitVariableDeclarationList_PA"
| "jumpTable_PA SyntaxKind.ReturnStatement = Some VisitReturnStatement_PA"
| "jumpTable_PA _ = None"

text \<open>The handlers that only log: they change nothing.\<close>

definition visitConditionalExpression :: "analysis \<Rightarrow> Context \<Rightarrow> node \<Rightarrow> visit" where
  "visitConditionalExpression s context node = Inr (s, context)"

definition visitEqualsGreaterThanToken_PA :: "analysis \<Rightarrow> Context \<Rightarrow> node \<Rightarrow> visit" where
  "visitEqualsGreaterThanToken_PA s context node = Inr (s, context)"

definition visitIdentifier_PA :: "analysis \<Rightarrow> Context \<Rightarrow> node \<Rightarrow> visit" where
  "visitIdentifier_PA s context node = Inr (s, context)"

definition visitStringLiteral :: "analysis \<Rightarrow> Context \<Rightarrow> node \<Rightarrow> visit" where
  "visitStringLiteral s context node = Inr (s, context)"

definition visitGreaterThanToken_PA :: "analysis \<Rightarrow> Context \<Rightarrow> node \<Rightarrow> visit" where
  "visitGreaterThanToken_PA s context node = Inr (s, context)"

definition visitLessThanToken_PA :: "analysis \<Rightarrow> Context \<Rightarrow> node \<Rightarrow> visit" where
  "visitLessThanToken_PA s context node = Inr (s, context)"

definition visitNumericLiteral :: "analysis \<Rightarrow> Context \<Rightarrow> node \<Rightarrow> visit" where
  "visitNumericLiteral s context node = Inr (s, context)"

definition visitEqualsToken :: "analysis \<Rightarrow> Context \<Rightarrow> node \<Rightarrow> visit" where
  "visitEqualsToken s context node = Inr (s, context)"

definition visitLessThanEqualsToken_PA :: "analysis \<Rightarrow> Context \<Rightarrow> node \<Rightarrow> visit" where
  "visitLessThanEqualsToken_PA s context node = Inr (s, context)"

definition visitReturnStatement :: "analysis \<Rightarrow> Context \<Rightarrow> node \<Rightarrow> visit" where
  "visitReturnStatement s context node = Inr (s, context)"

definition visitThisKeyword :: "analysis \<Rightarrow> Context \<Rightarrow> node \<Rightarrow> visit" where
  "visitThisKeyword s context node = Inr (s, context)"

text \<open>
  \<open>visitParameter\<close> reads the text of the parameter's type for the log before it
  registers the parameter, so a parameter without a type annotation ends the visit with a
  \<open>TypeError\<close>.
\<close>

definition visitParameter :: "analysis \<Rightarrow> Context \<Rightarrow> node \<Rightarrow> visit" where
  "visitParameter s context node =
     (case node of
        Parameter t name (Some type) \<Rightarrow> Inr (addVar (getText name) (getText type) s, context)
      | _ \<Rightarrow> Inl TypeError)"

text \<open>
  The recursive methods. \<open>visitNode\<close> looks the node's kind up in the table and calls
  the handler found; \<open>call_PA visitFn\<close> is that call, and its equation for a handler is
  the handler's body. A handler is reached by dispatch on the node's kind, so it is given
  the constructor of that kind, or a \<open>Node\<close> of that kind, which has none of the
  properties the handler reads; the handler's parameter type excludes every other node.
  \<open>forEach_visitNode\<close> is the loop \<open>nodes.forEach((n) => this.visitNode(context, n))\<close>.
  \<open>getLineNumbers\<close> is a utility outside the source files and is a parameter. In
  \<open>visitIfStatement\<close> the source adds the new conditional to its parent first and fills
  it afterwards through the reference it holds; nothing else touches the parent
  meanwhile, so here the filled conditional is added at the end, at the same position.
\<close>

fun visitNode :: "(node \<Rightarrow> LineNumbers) \<Rightarrow> analysis \<Rightarrow> Context \<Rightarrow> node \<Rightarrow> visit"
  and call_PA :: "visitor \<Rightarrow> (node \<Rightarrow> LineNumbers) \<Rightarrow> analysis \<Rightarrow> Context \<Rightarrow> node \<Rightarrow> visit"
  and forEach_visitNode ::
    "(node \<Rightarrow> LineNumbers) \<Rightarrow> analysis \<Rightarrow> Context \<Rightarrow> node list \<Rightarrow> visit"
where
  "visitNode getLineNumbers s context node =
     (case jumpTable_PA (kind node) of
        Some visitFn \<Rightarrow> call_PA visitFn getLineNumbers s context node
      | None \<Rightarrow>
          Inr (warn [Str ''found an unspecified node: '', Str (getText node), Str '', '',
                     KindName (kind node)] s,
               context))"
| "forEach_visitNode getLineNumbers s context [] = Inr (s, context)"
| "forEach_visitNode getLineNumbers s context (n # ns) =
     (case visitNode getLineNumbers s context n of
        Inl e \<Rightarrow> Inl e
      | Inr (s', context') \<Rightarrow> forEach_visitNode getLineNumbers s' context' ns)"
| "call_PA VisitConditionalExpression_PA getLineNumbers s context node =
     visitConditionalExpression s context node"
| "call_PA VisitEqualsToken_PA getLineNumbers s context node = visitEqualsToken s context node"
| "call_PA VisitGreaterThanToken_PA getLineNumbers s context node =
     visitGreaterThanToken_PA s context node"
| "call_PA VisitEqualsGreaterThanToken_PA getLineNumbers s context node =
     visitEqualsGreaterThanToken_PA s context node"
| "call_PA VisitIdentifier_PA getLineNumbers s context node = visitIdentifier_PA s context node"
| "call_PA VisitLessThanToken_PA getLineNumbers s context node =
     visitLessThanToken_PA s context node"
| "call_PA VisitLessThanEqualsToken_PA getLineNumbers s context node =
     visitLessThanEqualsToken_PA s context node"
| "call_PA VisitNumericLiteral_PA getLineNumbers s context node =
     visitNumericLiteral s context node"
| "call_PA VisitParameter_PA getLineNumbers s context node = visitParameter s context node"
| "call_PA VisitStringLiteral_PA getLineNumbers s context node =
     visitStringLiteral s context node"
| "call_PA VisitThisKeyword_PA getLineNumbers s context node = visitThisKeyword s context node"
| "call_PA VisitReturnStatement_PA getLineNumbers s context node =
     visitReturnStatement s context node"
| "call_PA VisitExpressionStatement_PA getLineNumbers s context node =
     (case node of
        ExpressionStatement t expressionNode \<Rightarrow>
          visitNode getLineNumbers s context expressionNode
      | _ \<Rightarrow> Inl TypeError)"
| "call_PA VisitClassDeclaration_PA getLineNumbers s context node =
     (case node of
        ClassDeclaration t members \<Rightarrow> forEach_visitNode getLineNumbers s context members
      | _ \<Rightarrow> Inl TypeError)"
| "call_PA VisitPropertyDeclaration_PA getLineNumbers s context node =
     (case node of
        PropertyDeclaration t (Some initializer) \<Rightarrow>
          visitNode getLineNumbers s context initializer
      | _ \<Rightarrow> Inr (s, context))"
| "call_PA VisitSourceFile_PA getLineNumbers s context node =
     (case node of
        SourceFile t statements \<Rightarrow> forEach_visitNode getLineNumbers s context statements
      | _ \<Rightarrow> Inl TypeError)"
| "call_PA VisitIfStatement_PA getLineNumbers s context node =
     (case node of
        IfStatement t expressionNode thenStatement elseStatement \<Rightarrow>
          (case visitNode getLineNumbers s
                  (setVisitingTrue (setCondition (Some expressionNode)
                     (setLineNumbers (getLineNumbers node) new_ContextConditional)))
                  expressionNode of
             Inl e \<Rightarrow> Inl e
           | Inr (s1, c1) \<Rightarrow>
               (case visitNode getLineNumbers s1 c1 thenStatement of
                  Inl e \<Rightarrow> Inl e
                | Inr (s2, c2) \<Rightarrow>
                    (case elseStatement of
                       None \<Rightarrow> Inr (s2, addChild context c2)
                     | Some elseNode \<Rightarrow>
                         (case visitNode getLineNumbers s2 (setVisitingFalse c2) elseNode of
                            Inl e \<Rightarrow> Inl e
                          | Inr (s3, c3) \<Rightarrow> Inr (s3, addChild context c3)))))
      | _ \<Rightarrow> Inl TypeError)"
| "call_PA VisitBinaryExpression_PA getLineNumbers s context node =
     (case node of
        BinaryExpression t left operatorToken right \<Rightarrow>
          (if getText operatorToken = ''=''
           then Inr (s, addChild context
                          (setExpression (Some right)
                             (setVarName (getText left) new_ContextAssignment)))
           else
             (case visitNode getLineNumbers s context left of
                Inl e \<Rightarrow> Inl e
              | Inr (s1, c1) \<Rightarrow>
                  (case visitNode getLineNumbers s1 c1 operatorToken of
                     Inl e \<Rightarrow> Inl e
                   | Inr (s2, c2) \<Rightarrow> visitNode getLineNumbers s2 c2 right)))
      | _ \<Rightarrow> Inl TypeError)"
| "call_PA VisitVariableDeclarationList_PA getLineNumbers s context node =
     (case node of
        VariableDeclarationList t declarations \<Rightarrow>
          forEach_visitNode getLineNumbers s context declarations
      | _ \<Rightarrow> Inl TypeError)"
| "call_PA VisitVariableDeclaration_PA getLineNumbers s context node =
     (case node of
        VariableDeclaration t name type initializer \<Rightarrow>
          (case visitNode getLineNumbers
                  (case type of
                     Some typeNode \<Rightarrow> addVar (getText name) (getText typeNode) s
                   | None \<Rightarrow> s)
                  (addChild context
                     (setExpression initializer
                        (setVarName (getText name) new_ContextAssignment)))
                  name of
             Inl e \<Rightarrow> Inl e
           | Inr (s1, c1) \<Rightarrow>
               (case initializer of
                  Some initializerNode \<Rightarrow> visitNode getLineNumbers s1 c1 initializerNode
                | None \<Rightarrow> Inr (s1, c1)))
      | _ \<Rightarrow> Inl TypeError)"
| "call_PA VisitArrowFunction_PA getLineNumbers s context node =
     (case node of
        ArrowFunction t parameters body \<Rightarrow>
          (case forEach_visitNode getLineNumbers s context parameters of
             Inl e \<Rightarrow> Inl e
           | Inr (s1, c1) \<Rightarrow> visitNode getLineNumbers s1 c1 body)
      | _ \<Rightarrow> Inl TypeError)"
| "call_PA VisitFirstStatement_PA getLineNumbers s context node =
     (case node of
        FirstStatement t childNodes \<Rightarrow> forEach_visitNode getLineNumbers s context childNodes
      | _ \<Rightarrow> Inr (s, context))"
| "call_PA VisitBlock_PA getLineNumbers s context node =
     (case node of
        Block t childNodes \<Rightarrow> forEach_visitNode getLineNumbers s context childNodes
      | _ \<Rightarrow> Inr (s, context))"
| "call_PA VisitSyntaxList_PA getLineNumbers s context node =
     (case node of
        SyntaxList t childNodes \<Rightarrow> forEach_visitNode getLineNumbers s context childNodes
      | _ \<Rightarrow> Inr (s, context))"
| "call_PA VisitFunctionDeclaration_PA getLineNumbers s context node =
     (case node of
        FunctionDeclaration t parameters body \<Rightarrow>
          (case forEach_visitNode getLineNumbers s context parameters of
             Inl e \<Rightarrow> Inl e
           | Inr (s1, c1) \<Rightarrow>
               (case body of
                  Some bodyNode \<Rightarrow> visitNode getLineNumbers s1 c1 bodyNode
                | None \<Rightarrow> Inr (s1, c1)))
      | _ \<Rightarrow> Inl TypeError)"
| "call_PA VisitPropertyAccessExpression_PA getLineNumbers s context node =
     (case node of
        PropertyAccessExpression t expressionNode name \<Rightarrow>
          (case visitNode getLineNumbers s context expressionNode of
             Inl e \<Rightarrow> Inl e
           | Inr (s1, c1) \<Rightarrow> visitNode getLineNumbers s1 c1 name)
      | _ \<Rightarrow> Inl TypeError)"

declare visitNode.simps [simp del]

text \<open>The recursive handlers under the names the source gives them.\<close>

definition visitExpressionStatement ::
  "(node \<Rightarrow> LineNumbers) \<Rightarrow> analysis \<Rightarrow> Context \<Rightarrow> node \<Rightarrow> visit" where
  "visitExpressionStatement = call_PA VisitExpressionStatement_PA"

definition visitClassDeclaration ::
  "(node \<Rightarrow> LineNumbers) \<Rightarrow> analysis \<Rightarrow> Context \<Rightarrow> node \<Rightarrow> visit" where
  "visitClassDeclaration = call_PA VisitClassDeclaration_PA"

definition visitPropertyDeclaration ::
  "(node \<Rightarrow> LineNumbers) \<Rightarrow> analysis \<Rightarrow> Context \<Rightarrow> node \<Rightarrow> visit" where
  "visitPropertyDeclaration = call_PA VisitPropertyDeclaration_PA"

definition visitSourceFile ::
  "(node \<Rightarrow> LineNumbers) \<Rightarrow> analysis \<Rightarrow> Context \<Rightarrow> node \<Rightarrow> visit" where
  "visitSourceFile = call_PA VisitSourceFile_PA"

definition visitIfStatement ::
  "(node \<Rightarrow> LineNumbers) \<Rightarrow> analysis \<Rightarrow> Context \<Rightarrow> node \<Rightarrow> visit" where
  "visitIfStatement = call_PA VisitIfStatement_PA"

definition visitBinaryExpression_PA ::
  "(node \<Rightarrow> LineNumbers) \<Rightarrow> analysis \<Rightarrow> Context \<Rightarrow> node \<Rightarrow> visit" where
  "visitBinaryExpression_PA = call_PA VisitBinaryExpression_PA"

definition visitVariableDeclarationList ::
  "(node \<Rightarrow> LineNumbers) \<Rightarrow> analysis \<Rightarrow> Context \<Rightarrow> node \<Rightarrow> visit" where
  "visitVariableDeclarationList = call_PA VisitVariableDeclarationList_PA"

definition visitVariableDeclaration ::
  "(node \<Rightarrow> LineNumbers) \<Rightarrow> analysis \<Rightarrow> Context \<Rightarrow> node \<Rightarrow> visit" where
  "visitVariableDeclaration = call_PA VisitVariableDeclaration_PA"

definition visitArrowFunction ::
  "(node \<Rightarrow> LineNumbers) \<Rightarrow> analysis \<Rightarrow> Context \<Rightarrow> node \<Rightarrow> visit" where
  "visitArrowFunction = call_PA VisitArrowFunction_PA"

definition visitFirstStatement ::
  "(node \<Rightarrow> LineNumbers) \<Rightarrow> analysis \<Rightarrow> Context \<Rightarrow> node \<Rightarrow> visit" where
  "visitFirstStatement = call_PA VisitFirstStatement_PA"

definition visitBlock ::
  "(node \<Rightarrow> LineNumbers) \<Rightarrow> analysis \<Rightarrow> Context \<Rightarrow> node \<Rightarrow> visit" where
  "visitBlock = call_PA VisitBlock_PA"

definition visitSyntaxList ::
  "(node \<Rightarrow> LineNumbers) \<Rightarrow> analysis \<Rightarrow> Context \<Rightarrow> node \<Rightarrow> visit" where
  "visitSyntaxList = call_PA VisitSyntaxList_PA"

definition visitFunctionDeclaration ::
  "(node \<Rightarrow> LineNumbers) \<Rightarrow> analysis \<Rightarrow> Context \<Rightarrow> node \<Rightarrow> visit" where
  "visitFunctionDeclaration = call_PA VisitFunctionDeclaration_PA"

definition visitPropertyAccessExpression ::
  "(node \<Rightarrow> LineNumbers) \<Rightarrow> analysis \<Rightarrow> Context \<Rightarrow> node \<Rightarrow> visit" where
  "visitPropertyAccessExpression = call_PA VisitPropertyAccessExpression_PA"

text \<open>Sequencing of two visits: the second runs on what the first returned.\<close>

definition andVisit :: "visit \<Rightarrow> (analysis \<Rightarrow> Context \<Rightarrow> visit) \<Rightarrow> visit" where
  "andVisit r f = (case r of Inl e \<Rightarrow> Inl e | Inr (s, c) \<Rightarrow> f s c)"

section \<open>The path enumerator\<close>

text \<open>
  Modelled from the spec: the class \<open>ContextPathsEvaluator\<close> is not among the source
  files. The spec's enumerator is a depth-first traversal: at a conditional it yields a
  continuation for the true polarity and then one for the false polarity, each tagged
  with its polarity; at any other context it descends through the children in insertion
  order; a path ends at a leaf. A path is the sequence of the contexts passed, each
  conditional with the polarity taken. For an \<open>if\<close> without \<open>else\<close> the spec's sentences
  disagree; the model follows the tie-break of its builder section, its boundary
  behaviours and its scenarios S2 and S3: the false-polarity path is emitted as well, with
  nothing under the conditional.
\<close>

type_synonym path = "(Context \<times> bool option) list"

fun paths :: "Context \<Rightarrow> path list"
  and descend :: "Context list \<Rightarrow> path list"
  and pathsOfAll :: "Context list \<Rightarrow> path list"
where
  "paths (Context cs) = map ((#) (Context cs, None)) (descend cs)"
| "paths (ContextConditional c l v ts fs) =
     map ((#) (ContextConditional c l v ts fs, Some True)) (descend ts) @
     map ((#) (ContextConditional c l v ts fs, Some False)) (descend fs)"
| "paths (ContextAssignment n e) = [[(ContextAssignment n e, None)]]"
| "descend [] = [[]]"
| "descend (c # cs) = pathsOfAll (c # cs)"
| "pathsOfAll [] = []"
| "pathsOfAll (c # cs) = paths c @ pathsOfAll cs"

section \<open>The analysis pipeline\<close>

text \<open>
  \<open>analyze\<close> runs inside the executor of a promise. The promise is settled by the first
  call of \<open>resolve\<close> or \<open>reject\<close>; a later call changes nothing, and neither call ends
  the executor. An exception that escapes the executor rejects the promise with the
  exception. \<open>ErrorDocument m\<close> is the string \<open>JSON.stringify({error: m})\<close>.
\<close>

datatype rejection = ErrorDocument string | Thrown error

datatype 'n promise = Pending | Resolved 'n | Rejected rejection

definition settle :: "'n promise \<Rightarrow> 'n promise \<Rightarrow> 'n promise" where
  "settle p outcome = (if p = Pending then outcome else p)"

fun join :: "string \<Rightarrow> string list \<Rightarrow> string" where
  "join separator [] = []"
| "join separator [x] = x"
| "join separator (x # y # ys) = x @ separator @ join separator (y # ys)"

text \<open>
  The collaborators of \<open>analyze\<close> that are outside the source files are parameters:
  the validator, the two line utilities, the path enumerator with its visitor context
  (\<open>getChildPaths c\<close> is what \<open>getChildPaths()\<close> returns after the evaluator has visited
  \<open>c\<close>), the statement processor, the two members of a condition that are logged, and
  the solver stage, whose promise either rejects with an error of some message (\<open>Inl\<close>)
  or resolves with the notes. They are taken not to throw.
\<close>

record ('p, 'c, 'n) collaborators =
  checkProgramIsValidTypescript :: "string \<Rightarrow> string list"
  getLastLineNumber :: "node \<Rightarrow> nat"
  getLineNumbers :: "node \<Rightarrow> LineNumbers"
  getChildPaths :: "Context \<Rightarrow> 'p"
  processProgramStatementLists :: "'p \<Rightarrow> 'c list list"
  conditionToString :: "'c \<Rightarrow> string"
  conditionVars :: "'c \<Rightarrow> string"
  checkPaths :: "nat \<Rightarrow> Context \<Rightarrow> 'c list list \<Rightarrow> string + 'n"

text \<open>
  What one run of \<open>analyze\<close> leaves behind: the promise as settled, the stages that
  were entered, in order, and the console output (the builder's warnings and the lines
  \<open>analyze\<close> logs). When the builder throws, the executor ends there; the warnings
  printed before the exception are not kept, and neither is the line \<open>console.error\<close>
  prints when the solver stage rejects.
\<close>

datatype stage = Precheck | BuildContextTree | EnumeratePaths | ProcessStatements | CheckPaths

record 'n run =
  promise :: "'n promise"
  stages :: "stage list"
  console :: "event list"

definition logConditionList :: "('c \<Rightarrow> string) \<Rightarrow> ('c \<Rightarrow> string) \<Rightarrow> 'c list \<Rightarrow> event list" where
  "logConditionList toString varsOf conditions =
     map (\<lambda>condition. Log [Str ''condition vars: '', Str (varsOf condition)]) conditions @
     [Log [Str (''[ '' @ join '', '' (map toString conditions)), Str '']'']]"

definition analyze :: "('p, 'c, 'n) collaborators \<Rightarrow> node \<Rightarrow> 'n run" where
  "analyze k sourceFile =
     (let diagnostics = checkProgramIsValidTypescript k (getText sourceFile);
          p = (if length diagnostics > 0
               then settle Pending (Rejected (ErrorDocument
                      (''Analysis cannot be completed as source file does not meet precheck requirements: ''
                       @ join '' '' diagnostics)))
               else Pending);
          programLastLineNumber = getLastLineNumber k sourceFile
      in case visitNode (getLineNumbers k) \<lparr>vars = Map.empty, warnings = []\<rparr> new_Context
                sourceFile of
           Inl e \<Rightarrow>
             \<lparr>promise = settle p (Rejected (Thrown e)),
              stages = [Precheck, BuildContextTree],
              console = []\<rparr>
         | Inr (s, context) \<Rightarrow>
             (let programStatementLists = getChildPaths k context;
                  conditionLists = processProgramStatementLists k programStatementLists
              in \<lparr>promise =
                     settle p
                       (case checkPaths k programLastLineNumber context conditionLists of
                          Inr notes \<Rightarrow> Resolved notes
                        | Inl message \<Rightarrow> Rejected (ErrorDocument message)),
                   stages = [Precheck, BuildContextTree, EnumeratePaths, ProcessStatements,
                             CheckPaths],
                   console =
                     warnings s @
                     [Log [Str ''=========''], Log [Str ''GETTING PATHS''], Log [Str ''========='']] @
                     concat (map (logConditionList (conditionToString k) (conditionVars k))
                               conditionLists) @
                     [Log [Str ''Z3 Check'']]\<rparr>))"

section \<open>Notions used to state the properties\<close>

text \<open>
  \<open>addChildren c added\<close> is \<open>c\<close> after \<open>addChild\<close> has been called on it with each
  element of \<open>added\<close> in turn.
\<close>

definition addChildren :: "Context \<Rightarrow> Context list \<Rightarrow> Context" where
  "addChildren c added = foldl addChild c added"

text \<open>
  \<open>adds f s' added\<close> says of a visit \<open>f\<close>, taken as a function of the context it is
  given, that on every context it returns the state \<open>s'\<close> and the context with the
  children \<open>added\<close> added: what the visit adds does not depend on where it adds it.
\<close>

definition adds :: "(Context \<Rightarrow> visit) \<Rightarrow> analysis \<Rightarrow> Context list \<Rightarrow> bool" where
  "adds f s' added = (\<forall>c. f c = Inr (s', addChildren c added))"

section \<open>Example programs\<close>

text \<open>
  The statement \<open>if (a) x = 1; else x = 2;\<close>, the nested statement
  \<open>if (a) if (b) x = 1; else x = 2; else x = 3;\<close> with the conditional contexts the
  builder makes of them, and the source file \<open>const x: boolean = 1;\<close>, which does not
  type-check.
\<close>

definition assignX :: "string \<Rightarrow> node" where
  "assignX n =
     ExpressionStatement (''x = '' @ n @ '';'')
       (BinaryExpression (''x = '' @ n) (Node SyntaxKind.Identifier ''x'')
          (Node SyntaxKind.EqualsToken ''='') (Node SyntaxKind.NumericLiteral n))"

definition assignedX :: "string \<Rightarrow> Context" where
  "assignedX n = ContextAssignment (Some ''x'') (Some (Node SyntaxKind.NumericLiteral n))"

definition plainIf :: node where
  "plainIf =
     IfStatement ''if (a) x = 1; else x = 2;'' (Node SyntaxKind.Identifier ''a'')
       (assignX ''1'') (Some (assignX ''2''))"

definition plainConditional :: Context where
  "plainConditional =
     ContextConditional (Some (Node SyntaxKind.Identifier ''a'')) (Some (1, 1)) (Some False)
       [assignedX ''1''] [assignedX ''2'']"

definition innerIf :: node where
  "innerIf =
     IfStatement ''if (b) x = 1; else x = 2;'' (Node SyntaxKind.Identifier ''b'')
       (assignX ''1'') (Some (assignX ''2''))"

definition nestedIf :: node where
  "nestedIf =
     IfStatement ''if (a) if (b) x = 1; else x = 2; else x = 3;''
       (Node SyntaxKind.Identifier ''a'') innerIf (Some (assignX ''3''))"

definition innerConditional :: Context where
  "innerConditional =
     ContextConditional (Some (Node SyntaxKind.Identifier ''b'')) (Some (1, 1)) (Some False)
       [assignedX ''1''] [assignedX ''2'']"

definition nestedConditional :: Context where
  "nestedConditional =
     ContextConditional (Some (Node SyntaxKind.Identifier ''a'')) (Some (1, 1)) (Some False)
       [innerConditional] [assignedX ''3'']"

definition ifWithoutElse :: node where
  "ifWithoutElse =
     IfStatement ''if (a) x = 1;'' (Node SyntaxKind.Identifier ''a'') (assignX ''1'') None"

text \<open>
  The function of the spec's scenario S2,
  \<open>function test(a: number) { if (a > 0) { if (a < 0) { return 1; } } }\<close>.
\<close>

definition block :: "string \<Rightarrow> node list \<Rightarrow> node" where
  "block t statements =
     Block t [Node SyntaxKind.OpenBraceToken ''{'', SyntaxList t statements,
              Node SyntaxKind.CloseBraceToken ''}'']"

definition compareLiteral :: "string \<Rightarrow> SyntaxKind \<Rightarrow> string \<Rightarrow> string \<Rightarrow> node" where
  "compareLiteral l k operator r =
     BinaryExpression (l @ '' '' @ operator @ '' '' @ r) (Node SyntaxKind.Identifier l)
       (Node k operator) (Node SyntaxKind.NumericLiteral r)"

definition scenarioS2 :: node where
  "scenarioS2 =
     SourceFile ''function test(a: number) { if (a > 0) { if (a < 0) { return 1; } } }''
       [FunctionDeclaration
          ''function test(a: number) { if (a > 0) { if (a < 0) { return 1; } } }''
          [Parameter ''a: number'' (Node SyntaxKind.Identifier ''a'')
             (Some (Node SyntaxKind.NumberKeyword ''number''))]
          (Some (block ''if (a > 0) { if (a < 0) { return 1; } }''
             [IfStatement ''if (a > 0) { if (a < 0) { return 1; } }''
                (compareLiteral ''a'' SyntaxKind.GreaterThanToken ''>'' ''0'')
                (block ''if (a < 0) { return 1; }''
                   [IfStatement ''if (a < 0) { return 1; }''
                      (compareLiteral ''a'' SyntaxKind.LessThanToken ''<'' ''0'')
                      (block ''return 1;'' [Node SyntaxKind.ReturnStatement ''return 1;''])
                      None])
                None]))]"

definition illTypedSource :: node where
  "illTypedSource =
     SourceFile ''const x: boolean = 1;''
       [FirstStatement ''const x: boolean = 1;''
          [VariableDeclarationList ''const x: boolean = 1''
             [VariableDeclaration ''x: boolean = 1'' (Node SyntaxKind.Identifier ''x'')
                (Some (Node SyntaxKind.BooleanKeyword ''boolean''))
                (Some (Node SyntaxKind.NumericLiteral ''1''))],
           Node SyntaxKind.SemicolonToken '';'']]"

text \<open>
  A solver for the examples. Like the solver library, its calls throw when an operand is
  \<open>undefined\<close>: a \<open>TypeError\<close> for the left operand, whose property is read, and a
  \<open>Z3AssertionError\<close> for the right operand, which is checked against the sort of the
  left. Otherwise a call returns the term.
\<close>

definition strictCall :: "(jsval \<Rightarrow> jsval \<Rightarrow> jsval) \<Rightarrow> jsval \<Rightarrow> jsval \<Rightarrow> error + jsval" where
  "strictCall mk l r =
     (if l = Undefined then Inl TypeError
      else if r = Undefined then Inl Z3AssertionError
      else Inr (mk l r))"

definition strictSolver :: solver where
  "strictSolver =
     \<lparr>GT = strictCall TermGT, GE = strictCall TermGE, LT = strictCall TermLT,
      LE = strictCall TermLE, Eq = strictCall TermEq\<rparr>"

text \<open>
  Collaborators for the example: a validator that reports the type error of the source
  above, the enumerator of the previous section, a statement processor that yields one
  empty condition list per path, and a solver stage that resolves with no notes.
\<close>

definition exampleCollaborators :: "(path list, string, (nat \<times> nat \<times> bool) list) collaborators" where
  "exampleCollaborators =
     \<lparr>checkProgramIsValidTypescript =
        (\<lambda>text. if text = ''const x: boolean = 1;''
                then [''Type number is not assignable to type boolean.'', ''(1,7)'']
                else []),
      getLastLineNumber = (\<lambda>n. 1),
      getLineNumbers = (\<lambda>n. (1, 1)),
      getChildPaths = paths,
      processProgramStatementLists = map (\<lambda>p. []),
      conditionToString = (\<lambda>c. c),
      conditionVars = (\<lambda>c. c),
      checkPaths = (\<lambda>lastLine c conditionLists. Inr [])\<rparr>"

section \<open>Properties of the condition evaluator\<close>

lemma visitComparison_bound:
  "visitComparison message solverCall (Some (init z3 ev)) context (Some l) (Some operator)
       (Some r) =
     ([Log [Str message, Str (getText operator)],
       Log [Str ''Got identifier: '', Str (getText l)],
       Log [Str ''Got identifier: '', Str (getText r)]],
      solverCall z3 (propertyRead (pathParams ev) (getText l))
                    (propertyRead (pathParams ev) (getText r)))"
  by (simp add: visitComparison_def andThen_def visitIdentifier_CE_def init_def)

text \<open>
  Called through the table, a handler has no receiver. \<open>visitIdentifier\<close>,
  \<open>visitBinaryExpression\<close> and the comparison handlers read a field of \<open>this\<close>, so
  dispatching to one of them throws whatever the environment holds; the three handlers
  that only log are the exception.
\<close>

lemma visitCondition_dispatch_throws:
  assumes "jumpTable_CE (kind n) = Some visitFn"
    and "visitFn \<noteq> VisitNonNullExpression_CE"
    and "visitFn \<noteq> VisitBarBarToken_CE"
    and "visitFn \<noteq> VisitAmpersandAmpersandToken_CE"
  shows "snd (visitCondition (Some ev) context (Some n)) = Inl TypeError"
  using assms
  by (cases visitFn)
     (auto simp: visitCondition_def visitIdentifier_CE_def visitComparison_def
        visitGreaterThanToken_CE_def visitEqualsGreaterThanToken_CE_def
        visitLessThanToken_CE_def visitLessThanEqualsToken_CE_def visitEqualsEqualsToken_def)

text \<open>
  Called on the evaluator, each dispatching method warns and returns \<open>undefined\<close> for a
  kind that is not in the table.
\<close>

lemma unrecognized_warns_and_returns_undefined:
  "(jumpTable_CE (kind operator) = None \<longrightarrow>
      visitBinaryExpression_CE (Some ev) context (Some (BinaryExpression t left operator right))
        = ([Log [Str ''Found a binary expression: '', Str t],
            Warn [Str ''found an unspecified operator: '', Str (getText operator), Str '', '',
                  KindName SyntaxKind.BinaryExpression]],
           Inr Undefined)) \<and>
   (jumpTable_CE (kind n) = None \<longrightarrow>
      visitCondition (Some ev) context (Some n)
        = ([Warn [Str ''found an unspecified condition: '', Str (getText n), Str '', '',
                  KindName (kind n)]],
           Inr Undefined))"
  by (simp add: andThen_def visitCondition_def)

text \<open>
  C2, as stated: an identifier that is absent from the environment makes the evaluation
  fail with a fatal error. It does not: for the identifier \<open>z\<close> and an empty environment
  \<open>visitIdentifier\<close> returns \<open>undefined\<close>.
\<close>

theorem visitIdentifier_absent_returns_undefined:
  "visitIdentifier_CE (Some (new_ConditionEvaluator Map.empty)) ()
       (Some (Node SyntaxKind.Identifier ''z''))
     = ([Log [Str ''Got identifier: '', Str ''z'']], Inr Undefined)"
  by (simp add: visitIdentifier_CE_def propertyRead_def new_ConditionEvaluator_def)

text \<open>
  C2, amended: for a condition that is a single identifier \<open>v\<close>, \<open>visitIdentifier\<close>,
  called on the evaluator, returns the value bound to \<open>v\<close> in the per-path environment,
  and returns \<open>undefined\<close>, raising nothing, when \<open>v\<close> is absent from it.
\<close>

theorem visitIdentifier_returns_binding_or_undefined:
  "visitIdentifier_CE (Some ev) context (Some (Node SyntaxKind.Identifier v))
     = ([Log [Str ''Got identifier: '', Str v]],
        Inr (case pathParams ev v of None \<Rightarrow> Undefined | Some e \<Rightarrow> e))"
  by (simp add: visitIdentifier_CE_def propertyRead_def)

text \<open>
  C3: a condition \<open>a >= b\<close> should yield \<open>GE(eval a, eval b)\<close>, the token \<open>>=\<close> being a
  recognized kind. The table registers the handler under \<open>EqualsGreaterThanToken\<close>, the
  arrow \<open>=>\<close>, and has no entry for \<open>GreaterThanEqualsToken\<close>: on \<open>a >= b\<close> the
  evaluator takes the branch for an unrecognized operator, warns and returns
  \<open>undefined\<close>.
\<close>

theorem visitBinaryExpression_GreaterThanEquals_unrecognized:
  "jumpTable_CE SyntaxKind.GreaterThanEqualsToken = None \<and>
   visitBinaryExpression_CE (Some ev) context
       (Some (BinaryExpression t left (Node SyntaxKind.GreaterThanEqualsToken operator) right))
     = ([Log [Str ''Found a binary expression: '', Str t],
         Warn [Str ''found an unspecified operator: '', Str operator, Str '', '',
               KindName SyntaxKind.BinaryExpression]],
        Inr Undefined)"
  by (simp add: andThen_def)

text \<open>
  C4, as stated: an integer literal operand is translated to the integer value. It is
  not: for \<open>a > 0\<close>, with \<open>a\<close> bound to the constant \<open>a\<close>, the handler looks the text
  \<open>0\<close> up in the environment and passes the result, \<open>undefined\<close>, to the solver call,
  which throws; no term over the integer \<open>0\<close> is returned.
\<close>

theorem visitGreaterThanToken_literal_is_looked_up:
  "visitGreaterThanToken_CE
       (Some (init strictSolver (new_ConditionEvaluator [''a'' \<mapsto> Const ''a''])))
       () (Some (Node SyntaxKind.Identifier ''a''))
       (Some (Node SyntaxKind.GreaterThanToken ''>''))
       (Some (Node SyntaxKind.NumericLiteral ''0''))
     = ([Log [Str ''Got greater than token '', Str ''>''],
         Log [Str ''Got identifier: '', Str ''a''],
         Log [Str ''Got identifier: '', Str ''0'']],
        Inl Z3AssertionError) \<and>
   GT strictSolver (Const ''a'') (IntVal 0) = Inr (TermGT (Const ''a'') (IntVal 0))"
  by (simp add: visitGreaterThanToken_CE_def visitComparison_bound propertyRead_def
        new_ConditionEvaluator_def strictSolver_def strictCall_def)

text \<open>
  C4, amended: the comparison handlers of an initialised evaluator translate each operand,
  an integer literal included, by looking its source text up in the environment, and call
  the solver with the results; for a literal \<open>n\<close> the operand passed is the value bound
  to the text of \<open>n\<close>, or \<open>undefined\<close>. This holds whatever the solver does with it.
\<close>

theorem comparison_operands_are_looked_up:
  "snd (visitGreaterThanToken_CE (Some (init z3 ev)) context (Some l) (Some operator)
          (Some (Node SyntaxKind.NumericLiteral n)))
     = GT z3 (propertyRead (pathParams ev) (getText l)) (propertyRead (pathParams ev) n) \<and>
   snd (visitEqualsGreaterThanToken_CE (Some (init z3 ev)) context (Some l) (Some operator)
          (Some (Node SyntaxKind.NumericLiteral n)))
     = GE z3 (propertyRead (pathParams ev) (getText l)) (propertyRead (pathParams ev) n) \<and>
   snd (visitLessThanToken_CE (Some (init z3 ev)) context (Some l) (Some operator)
          (Some (Node SyntaxKind.NumericLiteral n)))
     = LT z3 (propertyRead (pathParams ev) (getText l)) (propertyRead (pathParams ev) n) \<and>
   snd (visitLessThanEqualsToken_CE (Some (init z3 ev)) context (Some l) (Some operator)
          (Some (Node SyntaxKind.NumericLiteral n)))
     = LE z3 (propertyRead (pathParams ev) (getText l)) (propertyRead (pathParams ev) n) \<and>
   snd (visitEqualsEqualsToken (Some (init z3 ev)) context (Some l) (Some operator)
          (Some (Node SyntaxKind.NumericLiteral n)))
     = Eq z3 (propertyRead (pathParams ev) (getText l)) (propertyRead (pathParams ev) n)"
  by (simp add: visitGreaterThanToken_CE_def visitEqualsGreaterThanToken_CE_def
        visitLessThanToken_CE_def visitLessThanEqualsToken_CE_def visitEqualsEqualsToken_def
        visitComparison_bound)

text \<open>
  C5, as stated: \<open>a && b\<close> yields \<open>AND(eval a, eval b)\<close>. It does not: with both
  operands bound, \<open>visitBinaryExpression\<close> returns \<open>undefined\<close>.
\<close>

theorem visitBinaryExpression_and_is_not_a_conjunction:
  "snd (visitBinaryExpression_CE
          (Some (init strictSolver
                   (new_ConditionEvaluator [''a'' \<mapsto> Const ''a'', ''b'' \<mapsto> Const ''b''])))
          ()
          (Some (BinaryExpression ''a && b'' (Node SyntaxKind.Identifier ''a'')
                   (Node SyntaxKind.AmpersandAmpersandToken ''&&'')
                   (Node SyntaxKind.Identifier ''b''))))
     = Inr Undefined \<and>
   snd (visitBinaryExpression_CE
          (Some (init strictSolver
                   (new_ConditionEvaluator [''a'' \<mapsto> Const ''a'', ''b'' \<mapsto> Const ''b''])))
          ()
          (Some (BinaryExpression ''a && b'' (Node SyntaxKind.Identifier ''a'')
                   (Node SyntaxKind.AmpersandAmpersandToken ''&&'')
                   (Node SyntaxKind.Identifier ''b''))))
     \<noteq> Inr (And (Const ''a'') (Const ''b''))"
  by (simp add: andThen_def visitAmpersandAmpersandToken_def)

text \<open>
  C5, amended: for a condition \<open>a && b\<close>, \<open>visitBinaryExpression\<close>, called on the
  evaluator, dispatches to the handler of \<open>&&\<close>, which logs the text of the left operand
  and returns \<open>undefined\<close>; neither operand is translated.
\<close>

theorem visitBinaryExpression_and_returns_undefined:
  "visitBinaryExpression_CE (Some ev) context
       (Some (BinaryExpression t left (Node SyntaxKind.AmpersandAmpersandToken operator) right))
     = ([Log [Str ''Found a binary expression: '', Str t],
         Log [Str ''Got ampersand ampersand token '', Str (getText left)]],
        Inr Undefined)"
  by (simp add: andThen_def visitAmpersandAmpersandToken_def)

text \<open>
  C6: a condition with an unrecognized operator should produce a warning that is not
  fatal, so that the analysis continues. Given to \<open>visitCondition\<close>, a binary condition
  such as the bitwise \<open>a & b\<close> is dispatched on its own kind to
  \<open>visitBinaryExpression\<close>, called without a receiver: the method logs the text and
  throws on reading \<open>this.jumpTable\<close>, before it has looked at the operator. No warning
  is printed and the evaluation ends with the exception, for every binary condition and
  every evaluator.
\<close>

theorem visitCondition_binary_expression_throws:
  "visitCondition (Some ev) context (Some (BinaryExpression t left operator right))
     = ([Log [Str ''Found a binary expression: '', Str t]], Inl TypeError)"
  by (simp add: visitCondition_def)

section \<open>Properties of the context tree builder\<close>

text \<open>
  C7: for a binary expression whose operator is \<open>=\<close> the builder appends exactly one
  assignment to the current context, named by the text of the left-hand side and holding
  the right-hand side, and visits none of the three parts (the state is returned as it
  was); for any other operator it adds nothing itself and visits the left operand, the
  operator token and the right operand, in that order.
\<close>

theorem visitBinaryExpression_assignment_or_recursion:
  "visitBinaryExpression_PA gl s c (BinaryExpression t left operator right) =
     (if getText operator = ''=''
      then Inr (s, addChild c (ContextAssignment (Some (getText left)) (Some right)))
      else andVisit (visitNode gl s c left)
             (\<lambda>s1 c1. andVisit (visitNode gl s1 c1 operator)
                (\<lambda>s2 c2. visitNode gl s2 c2 right)))"
  by (simp add: visitBinaryExpression_PA_def andVisit_def new_ContextAssignment_def
           split: sum.splits prod.splits)

text \<open>
  C9: visiting a node whose kind is not in the builder's dispatch table prints one
  warning and changes nothing else: the context is returned as it was, and the visit does
  not fail.
\<close>

theorem visitNode_unknown_kind_warns_and_skips:
  "jumpTable_PA (kind node) = None \<Longrightarrow>
   visitNode gl s c node =
     Inr (s\<lparr>warnings := warnings s @
              [Warn [Str ''found an unspecified node: '', Str (getText node), Str '', '',
                     KindName (kind node)]]\<rparr>,
          c)"
  by (simp add: visitNode.simps warn_def)

theorem visitNode_unknown_kind_warns_and_skips_witness:
  "jumpTable_PA (kind (Node SyntaxKind.WhileStatement ''while (a) {}'')) = None \<and>
   visitNode (\<lambda>n. (1, 1)) \<lparr>vars = Map.empty, warnings = []\<rparr> (Context [])
       (Node SyntaxKind.WhileStatement ''while (a) {}'')
     = Inr (\<lparr>vars = Map.empty,
              warnings = [Warn [Str ''found an unspecified node: '', Str ''while (a) {}'',
                                Str '', '', KindName SyntaxKind.WhileStatement]]\<rparr>,
            Context [])"
  using visitNode_unknown_kind_warns_and_skips
          [of "Node SyntaxKind.WhileStatement ''while (a) {}''" "\<lambda>n. (1, 1)"
              "\<lparr>vars = Map.empty, warnings = []\<rparr>" "Context []"]
  by simp

text \<open>
  C10: for every variable declaration the builder registers the name with its type only
  when a type annotation is present, appends an assignment whose expression is the
  initializer, absent or not, and then visits the name and, when there is one, the
  initializer. So an untyped declaration with an initializer leaves an assignment for a
  variable that is not entered in the symbol table, and a declaration without an
  initializer leaves an assignment with no expression.
\<close>

theorem visitVariableDeclaration_appends_assignment:
  "visitVariableDeclaration gl s c (VariableDeclaration t name type initializer) =
     andVisit
       (visitNode gl
          (case type of Some typeNode \<Rightarrow> addVar (getText name) (getText typeNode) s | None \<Rightarrow> s)
          (addChild c (ContextAssignment (Some (getText name)) initializer))
          name)
       (\<lambda>s1 c1. case initializer of Some i \<Rightarrow> visitNode gl s1 c1 i | None \<Rightarrow> Inr (s1, c1)) \<and>
   visitVariableDeclaration gl s c
       (VariableDeclaration t (Node SyntaxKind.Identifier v) None
          (Some (Node SyntaxKind.NumericLiteral n)))
     = Inr (s, addChild c (ContextAssignment (Some v) (Some (Node SyntaxKind.NumericLiteral n)))) \<and>
   visitVariableDeclaration gl s c
       (VariableDeclaration t (Node SyntaxKind.Identifier v) (Some typeNode) None)
     = Inr (s\<lparr>vars := (vars s)(v \<mapsto> getText typeNode)\<rparr>,
            addChild c (ContextAssignment (Some v) None))"
  by (simp add: visitVariableDeclaration_def andVisit_def new_ContextAssignment_def
        visitNode.simps visitIdentifier_PA_def visitNumericLiteral_def addVar_def
           split: sum.splits prod.splits option.splits)

text \<open>Adding children one after another.\<close>

lemma addChildren_Nil: "addChildren c [] = c"
  by (simp add: addChildren_def)

lemma addChildren_one: "addChildren c [x] = addChild c x"
  by (simp add: addChildren_def)

lemma addChildren_append: "addChildren (addChildren c xs) ys = addChildren c (xs @ ys)"
  by (simp add: addChildren_def)

lemma addChildren_Conditional:
  "addChildren (ContextConditional e l v ts fs) xs =
     (if v = Some False then ContextConditional e l v ts (fs @ xs)
      else ContextConditional e l v (ts @ xs) fs)"
  unfolding addChildren_def
  by (induction xs arbitrary: ts fs) auto

lemmas leaf_defs = visitConditionalExpression_def visitEqualsToken_def
  visitGreaterThanToken_PA_def visitEqualsGreaterThanToken_PA_def visitIdentifier_PA_def
  visitLessThanToken_PA_def visitLessThanEqualsToken_PA_def visitNumericLiteral_def
  visitParameter_def visitStringLiteral_def visitThisKeyword_def visitReturnStatement_def

text \<open>What \<open>visitNode\<close> does on each kind of node that has properties.\<close>

lemma visitNode_SourceFile:
  "visitNode gl s c (SourceFile t ns) = forEach_visitNode gl s c ns"
  by (simp add: visitNode.simps)

lemma visitNode_Block:
  "visitNode gl s c (Block t ns) = forEach_visitNode gl s c ns"
  by (simp add: visitNode.simps)

lemma visitNode_SyntaxList:
  "visitNode gl s c (SyntaxList t ns) = forEach_visitNode gl s c ns"
  by (simp add: visitNode.simps)

lemma visitNode_FirstStatement:
  "visitNode gl s c (FirstStatement t ns) = forEach_visitNode gl s c ns"
  by (simp add: visitNode.simps)

lemma visitNode_ClassDeclaration:
  "visitNode gl s c (ClassDeclaration t ns) = forEach_visitNode gl s c ns"
  by (simp add: visitNode.simps)

lemma visitNode_VariableDeclarationList:
  "visitNode gl s c (VariableDeclarationList t ns) = forEach_visitNode gl s c ns"
  by (simp add: visitNode.simps)

lemma visitNode_ExpressionStatement:
  "visitNode gl s c (ExpressionStatement t e) = visitNode gl s c e"
  by (simp add: visitNode.simps)

lemma visitNode_PropertyDeclaration:
  "visitNode gl s c (PropertyDeclaration t i) =
     (case i of Some b \<Rightarrow> visitNode gl s c b | None \<Rightarrow> Inr (s, c))"
  by (simp add: visitNode.simps split: option.splits)

lemma visitNode_NonNullExpression:
  "visitNode gl s c (NonNullExpression t e) =
     Inr (warn [Str ''found an unspecified node: '', Str t, Str '', '',
                KindName SyntaxKind.NonNullExpression] s, c)"
  by (simp add: visitNode.simps)

lemma visitNode_Parameter:
  "visitNode gl s c (Parameter t name ty) = visitParameter s c (Parameter t name ty)"
  by (simp add: visitNode.simps)

lemma visitNode_FunctionDeclaration:
  "visitNode gl s c (FunctionDeclaration t ps body) =
     andVisit (forEach_visitNode gl s c ps)
       (\<lambda>s1 c1. case body of Some b \<Rightarrow> visitNode gl s1 c1 b | None \<Rightarrow> Inr (s1, c1))"
  by (simp add: visitNode.simps andVisit_def split: sum.splits)

lemma visitNode_ArrowFunction:
  "visitNode gl s c (ArrowFunction t ps body) =
     andVisit (forEach_visitNode gl s c ps) (\<lambda>s1 c1. visitNode gl s1 c1 body)"
  by (simp add: visitNode.simps andVisit_def split: sum.splits)

lemma visitNode_PropertyAccessExpression:
  "visitNode gl s c (PropertyAccessExpression t e name) =
     andVisit (visitNode gl s c e) (\<lambda>s1 c1. visitNode gl s1 c1 name)"
  by (simp add: visitNode.simps andVisit_def split: sum.splits)

lemma visitNode_VariableDeclaration:
  "visitNode gl s c (VariableDeclaration t name ty i) =
     andVisit (visitNode gl
        (case ty of Some typeNode \<Rightarrow> addVar (getText name) (getText typeNode) s | None \<Rightarrow> s)
        (addChild c (ContextAssignment (Some (getText name)) i)) name)
       (\<lambda>s1 c1. case i of Some b \<Rightarrow> visitNode gl s1 c1 b | None \<Rightarrow> Inr (s1, c1))"
  by (simp add: visitNode.simps andVisit_def new_ContextAssignment_def split: sum.splits)

lemma visitNode_BinaryExpression:
  "visitNode gl s c (BinaryExpression t l operator r) =
     (if getText operator = ''=''
      then Inr (s, addChild c (ContextAssignment (Some (getText l)) (Some r)))
      else andVisit (visitNode gl s c l)
             (\<lambda>s1 c1. andVisit (visitNode gl s1 c1 operator)
                (\<lambda>s2 c2. visitNode gl s2 c2 r)))"
  by (simp add: visitNode.simps andVisit_def new_ContextAssignment_def split: sum.splits)

lemma visitNode_IfStatement:
  "visitNode gl s c (IfStatement t e th el) =
     andVisit (visitNode gl s
                 (ContextConditional (Some e) (Some (gl (IfStatement t e th el))) (Some True) [] [])
                 e)
       (\<lambda>s1 c1. andVisit (visitNode gl s1 c1 th)
          (\<lambda>s2 c2. case el of
               None \<Rightarrow> Inr (s2, addChild c c2)
             | Some elseNode \<Rightarrow>
                 andVisit (visitNode gl s2 (setVisitingFalse c2) elseNode)
                   (\<lambda>s3 c3. Inr (s3, addChild c c3))))"
  by (simp add: visitNode.simps andVisit_def new_ContextConditional_def
           split: sum.splits option.splits)

lemmas visitNode_eqs = visitNode_SourceFile visitNode_Block visitNode_SyntaxList
  visitNode_FirstStatement visitNode_ClassDeclaration visitNode_VariableDeclarationList
  visitNode_ExpressionStatement visitNode_PropertyDeclaration visitNode_NonNullExpression
  visitNode_Parameter visitNode_FunctionDeclaration visitNode_ArrowFunction
  visitNode_PropertyAccessExpression visitNode_VariableDeclaration visitNode_BinaryExpression
  visitNode_IfStatement

lemma andVisit_Inr:
  "andVisit r f = Inr (s', c') \<longleftrightarrow> (\<exists>s1 c1. r = Inr (s1, c1) \<and> f s1 c1 = Inr (s', c'))"
  by (auto simp: andVisit_def split: sum.splits)

text \<open>
  What a visit adds does not depend on the context it is given: the same visit started
  on an empty root returns the same state and exactly the children added.
\<close>

lemma addsD: "adds f s' added \<Longrightarrow> f c = Inr (s', addChildren c added)"
  by (simp add: adds_def)

lemma adds_andVisit:
  assumes "adds f s1 a1" and "adds (g s1) s' a2"
  shows "adds (\<lambda>c. andVisit (f c) g) s' (a1 @ a2)"
  using assms by (simp add: adds_def andVisit_def addChildren_append)

lemma adds_unchanged: "adds (\<lambda>c. Inr (s, c)) s []"
  by (simp add: adds_def addChildren_Nil)

lemma addChildren_root: "addChildren (Context xs) added = Context (xs @ added)"
  unfolding addChildren_def by (induction added arbitrary: xs) auto

lemma call_Node_adds:
  assumes "call_PA v gl s c (Node k t) = Inr (s', c')"
  shows "adds (\<lambda>c0. call_PA v gl s c0 (Node k t)) s' []"
  using assms by (cases v) (auto simp: leaf_defs adds_def addChildren_Nil)

lemma forEach_adds:
  assumes "\<And>n s c s' c'. n \<in> set ns \<Longrightarrow> visitNode gl s c n = Inr (s', c') \<Longrightarrow>
             \<exists>added. adds (\<lambda>c0. visitNode gl s c0 n) s' added"
  shows "forEach_visitNode gl s c ns = Inr (s', c') \<Longrightarrow>
           \<exists>added. adds (\<lambda>c0. forEach_visitNode gl s c0 ns) s' added"
  using assms
proof (induction ns arbitrary: s c)
  case Nil
  then show ?case using adds_unchanged[of s] by auto
next
  case (Cons n ns)
  from Cons.prems(1) obtain s1 c1 where
    1: "visitNode gl s c n = Inr (s1, c1)" and 2: "forEach_visitNode gl s1 c1 ns = Inr (s', c')"
    by (auto split: sum.splits)
  from Cons.prems(2)[of n s c s1 c1] 1 obtain a1 where
    a1: "adds (\<lambda>c0. visitNode gl s c0 n) s1 a1" by auto
  have "\<exists>added. adds (\<lambda>c0. forEach_visitNode gl s1 c0 ns) s' added"
    using Cons.IH[OF 2] Cons.prems(2) by (meson list.set_intros(2))
  then obtain a2 where a2: "adds (\<lambda>c0. forEach_visitNode gl s1 c0 ns) s' a2" by auto
  have "adds (\<lambda>c0. forEach_visitNode gl s c0 (n # ns)) s' (a1 @ a2)"
    using a1 a2 by (simp add: adds_def addChildren_append)
  then show ?case by blast
qed

lemma visitNode_adds:
  "visitNode gl s c n = Inr (s', c') \<Longrightarrow> \<exists>added. adds (\<lambda>c0. visitNode gl s c0 n) s' added"
proof (induction n arbitrary: s c s' c')
  case (Node k t)
  show ?case
  proof (cases "jumpTable_PA k")
    case None
    with Node show ?thesis
      by (auto simp: visitNode.simps adds_def intro!: exI[of _ "[]"] simp: addChildren_Nil)
  next
    case (Some v)
    with Node have "call_PA v gl s c (Node k t) = Inr (s', c')" by (simp add: visitNode.simps)
    from call_Node_adds[OF this] Some show ?thesis
      by (auto simp: visitNode.simps adds_def)
  qed
next
  case (SourceFile t ns)
  have "\<exists>added. adds (\<lambda>c0. forEach_visitNode gl s c0 ns) s' added"
    by (rule forEach_adds[OF SourceFile.IH])
       (use SourceFile.prems in \<open>simp_all add: visitNode_eqs\<close>)
  then show ?case by (simp add: visitNode_eqs)
next
  case (Block t ns)
  have "\<exists>added. adds (\<lambda>c0. forEach_visitNode gl s c0 ns) s' added"
    by (rule forEach_adds[OF Block.IH])
       (use Block.prems in \<open>simp_all add: visitNode_eqs\<close>)
  then show ?case by (simp add: visitNode_eqs)
next
  case (SyntaxList t ns)
  have "\<exists>added. adds (\<lambda>c0. forEach_visitNode gl s c0 ns) s' added"
    by (rule forEach_adds[OF SyntaxList.IH])
       (use SyntaxList.prems in \<open>simp_all add: visitNode_eqs\<close>)
  then show ?case by (simp add: visitNode_eqs)
next
  case (FirstStatement t ns)
  have "\<exists>added. adds (\<lambda>c0. forEach_visitNode gl s c0 ns) s' added"
    by (rule forEach_adds[OF FirstStatement.IH])
       (use FirstStatement.prems in \<open>simp_all add: visitNode_eqs\<close>)
  then show ?case by (simp add: visitNode_eqs)
next
  case (FunctionDeclaration t ps body)
  from FunctionDeclaration.prems obtain s1 c1 where
    1: "forEach_visitNode gl s c ps = Inr (s1, c1)" and
    2: "(case body of Some b \<Rightarrow> visitNode gl s1 c1 b | None \<Rightarrow> Inr (s1, c1)) = Inr (s', c')"
    by (auto simp: visitNode_eqs andVisit_Inr)
  from forEach_adds[OF _ 1] FunctionDeclaration.IH(1) obtain a1 where
    a1: "adds (\<lambda>c0. forEach_visitNode gl s c0 ps) s1 a1" by blast
  have "\<exists>a2. adds (\<lambda>c0. case body of Some b \<Rightarrow> visitNode gl s1 c0 b | None \<Rightarrow> Inr (s1, c0)) s' a2"
  proof (cases body)
    case None
    with 2 show ?thesis using adds_unchanged[of s1] by auto
  next
    case (Some b)
    with 2 FunctionDeclaration.IH(2)[of b s1 c1 s' c'] show ?thesis by simp
  qed
  then obtain a2 where
    a2: "adds (\<lambda>c0. case body of Some b \<Rightarrow> visitNode gl s1 c0 b | None \<Rightarrow> Inr (s1, c0)) s' a2"
    by auto
  have "adds (\<lambda>c0. visitNode gl s c0 (FunctionDeclaration t ps body)) s' (a1 @ a2)"
    using a1 a2 by (simp add: visitNode_eqs adds_def andVisit_def addChildren_append)
  then show ?case by blast
next
  case (ArrowFunction t ps body)
  from ArrowFunction.prems obtain s1 c1 where
    1: "forEach_visitNode gl s c ps = Inr (s1, c1)" and
    2: "visitNode gl s1 c1 body = Inr (s', c')"
    by (auto simp: visitNode_eqs andVisit_Inr)
  from forEach_adds[OF _ 1] ArrowFunction.IH(1) obtain a1 where
    a1: "adds (\<lambda>c0. forEach_visitNode gl s c0 ps) s1 a1" by blast
  from ArrowFunction.IH(2)[OF 2] obtain a2 where
    a2: "adds (\<lambda>c0. visitNode gl s1 c0 body) s' a2" by auto
  have "adds (\<lambda>c0. visitNode gl s c0 (ArrowFunction t ps body)) s' (a1 @ a2)"
    using a1 a2 by (simp add: visitNode_eqs adds_def andVisit_def addChildren_append)
  then show ?case by blast
next
  case (ClassDeclaration t ns)
  have "\<exists>added. adds (\<lambda>c0. forEach_visitNode gl s c0 ns) s' added"
    by (rule forEach_adds[OF ClassDeclaration.IH])
       (use ClassDeclaration.prems in \<open>simp_all add: visitNode_eqs\<close>)
  then show ?case by (simp add: visitNode_eqs)
next
  case (PropertyDeclaration t i)
  show ?case
  proof (cases i)
    case None
    with PropertyDeclaration.prems show ?thesis
      using adds_unchanged[of s] by (auto simp: visitNode_eqs)
  next
    case (Some b)
    with PropertyDeclaration.prems PropertyDeclaration.IH[of b s c s' c'] show ?thesis
      by (simp add: visitNode_eqs)
  qed
next
  case (Parameter t name ty)
  then show ?case
    by (auto simp: visitNode_eqs leaf_defs adds_def addChildren_Nil split: option.splits
             intro!: exI[of _ "[]"])
next
  case (ExpressionStatement t e)
  then show ?case by (simp add: visitNode_eqs)
next
  case (VariableDeclarationList t ns)
  have "\<exists>added. adds (\<lambda>c0. forEach_visitNode gl s c0 ns) s' added"
    by (rule forEach_adds[OF VariableDeclarationList.IH])
       (use VariableDeclarationList.prems in \<open>simp_all add: visitNode_eqs\<close>)
  then show ?case by (simp add: visitNode_eqs)
next
  case (VariableDeclaration t name ty i)
  let ?s0 = "case ty of Some typeNode \<Rightarrow> addVar (getText name) (getText typeNode) s | None \<Rightarrow> s"
  let ?a = "ContextAssignment (Some (getText name)) i"
  from VariableDeclaration.prems obtain s1 c1 where
    1: "visitNode gl ?s0 (addChild c ?a) name = Inr (s1, c1)" and
    2: "(case i of Some b \<Rightarrow> visitNode gl s1 c1 b | None \<Rightarrow> Inr (s1, c1)) = Inr (s', c')"
    by (auto simp: visitNode_eqs andVisit_Inr)
  from VariableDeclaration.IH(1)[OF 1] obtain a1 where
    a1: "adds (\<lambda>c0. visitNode gl ?s0 c0 name) s1 a1" by auto
  have "\<exists>a2. adds (\<lambda>c0. case i of Some b \<Rightarrow> visitNode gl s1 c0 b | None \<Rightarrow> Inr (s1, c0)) s' a2"
  proof (cases i)
    case None
    with 2 show ?thesis using adds_unchanged[of s1] by auto
  next
    case (Some b)
    with 2 VariableDeclaration.IH(3)[of b s1 c1 s' c'] show ?thesis by simp
  qed
  then obtain a2 where
    a2: "adds (\<lambda>c0. case i of Some b \<Rightarrow> visitNode gl s1 c0 b | None \<Rightarrow> Inr (s1, c0)) s' a2"
    by auto
  have "adds (\<lambda>c0. visitNode gl s c0 (VariableDeclaration t name ty i)) s' (?a # a1 @ a2)"
    using a1 a2
    by (simp add: visitNode_eqs adds_def andVisit_def addChildren_append addChildren_def)
  then show ?case by blast
next
  case (IfStatement t e th el)
  let ?K = "ContextConditional (Some e) (Some (gl (IfStatement t e th el))) (Some True) [] []"
  from IfStatement.prems obtain s1 c1 s2 c2 where
    1: "visitNode gl s ?K e = Inr (s1, c1)" and
    2: "visitNode gl s1 c1 th = Inr (s2, c2)" and
    3: "(case el of None \<Rightarrow> Inr (s2, addChild c c2)
         | Some elseNode \<Rightarrow> andVisit (visitNode gl s2 (setVisitingFalse c2) elseNode)
                             (\<lambda>s3 c3. Inr (s3, addChild c c3))) = Inr (s', c')"
    by (auto simp: visitNode_eqs andVisit_Inr)
  show ?case
  proof (cases el)
    case None
    with 3 have "s' = s2" by simp
    then have "adds (\<lambda>c0. visitNode gl s c0 (IfStatement t e th el)) s' [c2]"
      using 1 2 None by (simp add: visitNode_eqs adds_def andVisit_def addChildren_one)
    then show ?thesis by blast
  next
    case (Some elseNode)
    with 3 obtain c3 where 4: "visitNode gl s2 (setVisitingFalse c2) elseNode = Inr (s', c3)"
      by (auto simp: andVisit_Inr)
    have "adds (\<lambda>c0. visitNode gl s c0 (IfStatement t e th el)) s' [c3]"
      using 1 2 4 Some by (simp add: visitNode_eqs adds_def andVisit_def addChildren_one)
    then show ?thesis by blast
  qed
next
  case (BinaryExpression t l operator r)
  show ?case
  proof (cases "getText operator = ''=''")
    case True
    with BinaryExpression.prems have
      "adds (\<lambda>c0. visitNode gl s c0 (BinaryExpression t l operator r)) s'
         [ContextAssignment (Some (getText l)) (Some r)]"
      by (auto simp: visitNode_eqs adds_def addChildren_one)
    then show ?thesis by blast
  next
    case False
    with BinaryExpression.prems obtain s1 c1 s2 c2 where
      1: "visitNode gl s c l = Inr (s1, c1)" and
      2: "visitNode gl s1 c1 operator = Inr (s2, c2)" and
      3: "visitNode gl s2 c2 r = Inr (s', c')"
      by (auto simp: visitNode_eqs andVisit_Inr)
    from BinaryExpression.IH(1)[OF 1] obtain a1 where
      a1: "adds (\<lambda>c0. visitNode gl s c0 l) s1 a1" by auto
    from BinaryExpression.IH(2)[OF 2] obtain a2 where
      a2: "adds (\<lambda>c0. visitNode gl s1 c0 operator) s2 a2" by auto
    from BinaryExpression.IH(3)[OF 3] obtain a3 where
      a3: "adds (\<lambda>c0. visitNode gl s2 c0 r) s' a3" by auto
    have "adds (\<lambda>c0. visitNode gl s c0 (BinaryExpression t l operator r)) s' (a1 @ a2 @ a3)"
      using a1 a2 a3 False
      by (simp add: visitNode_eqs adds_def andVisit_def addChildren_append)
    then show ?thesis by blast
  qed
next
  case (PropertyAccessExpression t e name)
  from PropertyAccessExpression.prems obtain s1 c1 where
    1: "visitNode gl s c e = Inr (s1, c1)" and 2: "visitNode gl s1 c1 name = Inr (s', c')"
    by (auto simp: visitNode_eqs andVisit_Inr)
  from PropertyAccessExpression.IH(1)[OF 1] obtain a1 where
    a1: "adds (\<lambda>c0. visitNode gl s c0 e) s1 a1" by auto
  from PropertyAccessExpression.IH(2)[OF 2] obtain a2 where
    a2: "adds (\<lambda>c0. visitNode gl s1 c0 name) s' a2" by auto
  have "adds (\<lambda>c0. visitNode gl s c0 (PropertyAccessExpression t e name)) s' (a1 @ a2)"
    using a1 a2 by (simp add: visitNode_eqs adds_def andVisit_def addChildren_append)
  then show ?case by blast
next
  case (NonNullExpression t e)
  then show ?case
    by (auto simp: visitNode_eqs adds_def addChildren_Nil intro!: exI[of _ "[]"])
qed


lemma visitNode_from_root:
  assumes "visitNode gl s c n = Inr (s', c')"
  shows "\<exists>added. visitNode gl s (Context []) n = Inr (s', Context added) \<and>
                  c' = addChildren c added"
proof -
  from visitNode_adds[OF assms] obtain added where
    a: "adds (\<lambda>c0. visitNode gl s c0 n) s' added" by auto
  from addsD[OF a, of "Context []"] have "visitNode gl s (Context []) n = Inr (s', Context added)"
    by (simp add: addChildren_root)
  moreover from addsD[OF a, of c] assms have "c' = addChildren c added" by simp
  ultimately show ?thesis by blast
qed

section \<open>Properties of the path enumerator\<close>

lemma paths_nonempty:
  "paths c \<noteq> []"
  "descend cs \<noteq> []"
  "cs \<noteq> [] \<longrightarrow> pathsOfAll cs \<noteq> []"
  by (induct c and cs and cs rule: paths_descend_pathsOfAll.induct) auto

text \<open>
  The enumerator on the spec's boundary cases and on its scenario S2: two paths for an
  \<open>if\<close> with both branches, two for an \<open>if\<close> without \<open>else\<close>, the second carrying
  nothing under the conditional, and three for the nested statements of S2.
\<close>

lemma plain_conditional_has_two_paths:
  "map (map snd) (paths plainConditional) = [[Some True, None], [Some False, None]]"
  by (simp add: plainConditional_def assignedX_def)

lemma if_without_else_has_two_paths:
  "visitIfStatement (\<lambda>n. (1, 1)) \<lparr>vars = Map.empty, warnings = []\<rparr> (Context []) ifWithoutElse
     = Inr (\<lparr>vars = Map.empty, warnings = []\<rparr>,
            Context [ContextConditional (Some (Node SyntaxKind.Identifier ''a'')) (Some (1, 1))
                       (Some True) [assignedX ''1''] []]) \<and>
   map (map snd)
     (paths (ContextConditional (Some (Node SyntaxKind.Identifier ''a'')) (Some (1, 1))
               (Some True) [assignedX ''1''] []))
     = [[Some True, None], [Some False]]"
  by (simp add: ifWithoutElse_def assignX_def assignedX_def visitIfStatement_def visitNode_eqs
        visitNode.simps andVisit_def new_ContextConditional_def new_ContextAssignment_def
        visitIdentifier_PA_def)

lemma scenario_S2_has_three_paths:
  "map (map snd)
     (case visitNode (\<lambda>n. (1, 1)) \<lparr>vars = Map.empty, warnings = []\<rparr> (Context []) scenarioS2 of
        Inl e \<Rightarrow> []
      | Inr (s, root) \<Rightarrow> paths root)
     = [[None, Some True, Some True], [None, Some True, Some False], [None, Some False]]"
  by (simp add: scenarioS2_def block_def compareLiteral_def visitNode_eqs visitNode.simps
        andVisit_def visitParameter_def visitIdentifier_PA_def visitNumericLiteral_def
        visitGreaterThanToken_PA_def visitLessThanToken_PA_def visitReturnStatement_def
        addVar_def warn_def new_ContextConditional_def)

lemma visitIfStatement_plainIf:
  "visitIfStatement (\<lambda>n. (1, 1)) \<lparr>vars = Map.empty, warnings = []\<rparr> (Context []) plainIf
     = Inr (\<lparr>vars = Map.empty, warnings = []\<rparr>, Context [plainConditional])"
  by (simp add: plainIf_def plainConditional_def assignX_def assignedX_def
        visitIfStatement_def visitNode_eqs visitNode.simps andVisit_def
        new_ContextConditional_def new_ContextAssignment_def visitIdentifier_PA_def)

text \<open>
  C8, as stated: a conditional made from an \<open>if\<close> with both branches is passed by
  exactly two paths. It is not when a branch forks again: for
  \<open>if (a) if (b) x = 1; else x = 2; else x = 3;\<close> the builder makes one conditional for
  the outer statement, and three paths are enumerated through it, two of them of true
  polarity.
\<close>

theorem nested_conditional_has_three_paths:
  "visitIfStatement (\<lambda>n. (1, 1)) \<lparr>vars = Map.empty, warnings = []\<rparr> (Context []) nestedIf
     = Inr (\<lparr>vars = Map.empty, warnings = []\<rparr>, Context [nestedConditional]) \<and>
   map (map snd) (paths nestedConditional)
     = [[Some True, Some True, None], [Some True, Some False, None], [Some False, None]] \<and>
   length (paths nestedConditional) \<noteq> 2"
  by (simp add: nestedIf_def innerIf_def nestedConditional_def innerConditional_def
        assignX_def assignedX_def visitIfStatement_def visitNode_eqs visitNode.simps
        andVisit_def new_ContextConditional_def new_ContextAssignment_def
        visitIdentifier_PA_def)

text \<open>
  C8, amended: for the conditional made from an \<open>if\<close> with both branches the enumerator
  emits the paths through it in two groups, neither empty: first the paths of true
  polarity, one for each path through the contexts that the predicate and the then branch
  produce, then the paths of false polarity, one for each path through the contexts that
  the else branch produces. There are two paths exactly when each branch enumerates a
  single one.
\<close>

theorem conditional_paths_true_then_false:
  assumes "visitIfStatement gl s c (IfStatement t e th (Some el)) = Inr (s', c')"
  shows "\<exists>s1 s2 ps ts fs.
      visitNode gl s (Context []) e = Inr (s1, Context ps) \<and>
      visitNode gl s1 (Context []) th = Inr (s2, Context ts) \<and>
      visitNode gl s2 (Context []) el = Inr (s', Context fs) \<and>
      c' = addChild c
             (ContextConditional (Some e) (Some (gl (IfStatement t e th (Some el))))
                (Some False) (ps @ ts) fs) \<and>
      paths (ContextConditional (Some e) (Some (gl (IfStatement t e th (Some el))))
               (Some False) (ps @ ts) fs)
        = map ((#) (ContextConditional (Some e) (Some (gl (IfStatement t e th (Some el))))
                      (Some False) (ps @ ts) fs, Some True)) (descend (ps @ ts)) @
          map ((#) (ContextConditional (Some e) (Some (gl (IfStatement t e th (Some el))))
                      (Some False) (ps @ ts) fs, Some False)) (descend fs) \<and>
      descend (ps @ ts) \<noteq> [] \<and> descend fs \<noteq> [] \<and>
      length (paths (ContextConditional (Some e) (Some (gl (IfStatement t e th (Some el))))
                       (Some False) (ps @ ts) fs))
        = length (descend (ps @ ts)) + length (descend fs)"
proof -
  let ?ln = "Some (gl (IfStatement t e th (Some el)))"
  from assms obtain s1 c1 s2 c2 c3 where
    1: "visitNode gl s (ContextConditional (Some e) ?ln (Some True) [] []) e = Inr (s1, c1)" and
    2: "visitNode gl s1 c1 th = Inr (s2, c2)" and
    3: "visitNode gl s2 (setVisitingFalse c2) el = Inr (s', c3)" and
    4: "c' = addChild c c3"
    by (auto simp: visitIfStatement_def new_ContextConditional_def split: sum.splits)
  from visitNode_from_root[OF 1] obtain ps where
    p: "visitNode gl s (Context []) e = Inr (s1, Context ps)" and
    c1: "c1 = ContextConditional (Some e) ?ln (Some True) ps []"
    by (auto simp: addChildren_Conditional)
  from visitNode_from_root[OF 2] c1 obtain ts where
    t: "visitNode gl s1 (Context []) th = Inr (s2, Context ts)" and
    c2: "c2 = ContextConditional (Some e) ?ln (Some True) (ps @ ts) []"
    by (auto simp: addChildren_Conditional)
  from visitNode_from_root[OF 3] c2 obtain fs where
    f: "visitNode gl s2 (Context []) el = Inr (s', Context fs)" and
    c3: "c3 = ContextConditional (Some e) ?ln (Some False) (ps @ ts) fs"
    by (auto simp: addChildren_Conditional)
  have "descend (ps @ ts) \<noteq> []" "descend fs \<noteq> []" by (rule paths_nonempty)+
  with p t f 4 c3 show ?thesis by (intro exI[of _ s1] exI[of _ s2] exI[of _ ps] exI[of _ ts] exI[of _ fs]) simp
qed

theorem conditional_paths_true_then_false_witness:
  "visitIfStatement (\<lambda>n. (1, 1)) \<lparr>vars = Map.empty, warnings = []\<rparr> (Context []) plainIf
     = Inr (\<lparr>vars = Map.empty, warnings = []\<rparr>, Context [plainConditional]) \<and>
   (\<exists>s1 s2 ps ts fs.
      visitNode (\<lambda>n. (1, 1)) \<lparr>vars = Map.empty, warnings = []\<rparr> (Context [])
          (Node SyntaxKind.Identifier ''a'') = Inr (s1, Context ps) \<and>
      visitNode (\<lambda>n. (1, 1)) s1 (Context []) (assignX ''1'') = Inr (s2, Context ts) \<and>
      visitNode (\<lambda>n. (1, 1)) s2 (Context []) (assignX ''2'')
        = Inr (\<lparr>vars = Map.empty, warnings = []\<rparr>, Context fs) \<and>
      Context [plainConditional] = addChild (Context [])
        (ContextConditional (Some (Node SyntaxKind.Identifier ''a'')) (Some (1, 1))
           (Some False) (ps @ ts) fs) \<and>
      paths (ContextConditional (Some (Node SyntaxKind.Identifier ''a'')) (Some (1, 1))
               (Some False) (ps @ ts) fs)
        = map ((#) (ContextConditional (Some (Node SyntaxKind.Identifier ''a'')) (Some (1, 1))
                      (Some False) (ps @ ts) fs, Some True)) (descend (ps @ ts)) @
          map ((#) (ContextConditional (Some (Node SyntaxKind.Identifier ''a'')) (Some (1, 1))
                      (Some False) (ps @ ts) fs, Some False)) (descend fs) \<and>
      descend (ps @ ts) \<noteq> [] \<and> descend fs \<noteq> [] \<and>
      length (paths (ContextConditional (Some (Node SyntaxKind.Identifier ''a''))
                       (Some (1, 1)) (Some False) (ps @ ts) fs))
        = length (descend (ps @ ts)) + length (descend fs))"
  using conditional_paths_true_then_false
          [of "\<lambda>n. (1, 1)" "\<lparr>vars = Map.empty, warnings = []\<rparr>" "Context []"
              "''if (a) x = 1; else x = 2;''" "Node SyntaxKind.Identifier ''a''"
              "assignX ''1''" "assignX ''2''" "\<lparr>vars = Map.empty, warnings = []\<rparr>"
              "Context [plainConditional]"]
        visitIfStatement_plainIf
  by (simp add: plainIf_def)

section \<open>Properties of the analysis pipeline\<close>

text \<open>
  A source that fails the precheck settles the promise with the precheck error, and the
  executor goes on all the same: the tree is built and the later stages are called.
\<close>

lemma analyze_precheck_failure_goes_on:
  assumes "checkProgramIsValidTypescript k (getText sourceFile) \<noteq> []"
  shows "promise (analyze k sourceFile) =
           Rejected (ErrorDocument
             (''Analysis cannot be completed as source file does not meet precheck requirements: ''
              @ join '' '' (checkProgramIsValidTypescript k (getText sourceFile))))"
    and "take 2 (stages (analyze k sourceFile)) = [Precheck, BuildContextTree]"
  using assms
  by (auto simp: analyze_def Let_def settle_def split: sum.splits)

text \<open>
  C1: a source for which the validator returns diagnostics should halt the pipeline with
  the precheck error, no later stage running. For \<open>const x: boolean = 1;\<close> the promise
  is rejected with that error, carrying the joined diagnostics, but every later stage
  runs: the builder warns about the semicolon token, the paths are enumerated and
  logged, and the solver stage is called.
\<close>

theorem analyze_precheck_failure_runs_all_stages:
  "promise (analyze exampleCollaborators illTypedSource) =
     Rejected (ErrorDocument
       (''Analysis cannot be completed as source file does not meet precheck requirements: ''
        @ ''Type number is not assignable to type boolean. (1,7)'')) \<and>
   stages (analyze exampleCollaborators illTypedSource) =
     [Precheck, BuildContextTree, EnumeratePaths, ProcessStatements, CheckPaths] \<and>
   console (analyze exampleCollaborators illTypedSource) =
     [Warn [Str ''found an unspecified node: '', Str '';'', Str '', '',
            KindName SyntaxKind.SemicolonToken],
      Log [Str ''=========''], Log [Str ''GETTING PATHS''], Log [Str ''=========''],
      Log [Str ''[ '', Str '']''],
      Log [Str ''Z3 Check'']]"
  by (simp add: analyze_def exampleCollaborators_def illTypedSource_def Let_def settle_def
        visitNode_eqs visitNode.simps andVisit_def visitIdentifier_PA_def
        visitNumericLiteral_def addVar_def warn_def new_Context_def new_ContextAssignment_def
        logConditionList_def)

end
